theory Spec2Isabelle
  imports Main "HOL-Library.Word" "HOL-Library.Multiset"
begin

section \<open>JavaScript values used by the front end\<close>

text \<open>
  A JavaScript string is a sequence of UTF-16 code units; \<open>s.length\<close> counts code
  units, which is what the forms call "characters". String literals of the source are
  written \<open>js ''...''\<close>.
\<close>

type_synonym code_unit = "16 word"
type_synonym jsstring = "code_unit list"

definition js :: "string \<Rightarrow> jsstring" where
  "js s = map of_char s"

text \<open>
  \<open>String.prototype.trim\<close> strips the WhiteSpace and LineTerminator code points of
  ECMAScript from both ends: TAB, LF, VT, FF, CR, SPACE, NBSP, U+1680, U+2000..U+200A,
  U+2028, U+2029, U+202F, U+205F, U+3000 and U+FEFF. All of them are single code units.
\<close>

definition is_ws :: "code_unit \<Rightarrow> bool" where
  "is_ws c = (let n = unat c in
      n \<in> {9, 10, 11, 12, 13, 32, 160, 5760, 8232, 8233, 8239, 8287, 12288, 65279}
      \<or> (8192 \<le> n \<and> n \<le> 8202))"

definition trim :: "jsstring \<Rightarrow> jsstring" where
  "trim s = rev (dropWhile is_ws (rev (dropWhile is_ws s)))"

text \<open>
  A value thrown by an awaited call: an \<open>Error\<close> instance with its message, or a value
  that is not an \<open>Error\<close> (the \<open>err instanceof Error\<close> test of the handlers).
  An awaited promise either resolves with a value or rejects with a thrown value.
\<close>

datatype thrown = Error jsstring | NotAnError

datatype 'a settled = Resolved 'a | Rejected thrown

section \<open>TaskForm\<close>

text \<open>
  The payload \<open>TaskCreate | TaskUpdate\<close> built by the form: a title and a description
  that is a string or \<open>null\<close>.
\<close>

record task_payload =
  p_title :: jsstring
  p_description :: "jsstring option"

text \<open>
  The state hooks of \<open>TaskForm\<close>: \<open>title\<close>, \<open>description\<close>, \<open>loading\<close>, \<open>error\<close>.
\<close>

record task_form =
  tf_title :: jsstring
  tf_description :: jsstring
  tf_loading :: bool
  tf_error :: jsstring

text \<open>
  \<open>handleSubmit\<close> takes the form state and the \<open>onSubmit\<close> prop (what the awaited call
  settles to, for each payload) and returns the state after the handler has run, with the
  list of payloads \<open>onSubmit\<close> was called with.
\<close>

definition handleSubmit ::
  "task_form \<Rightarrow> (task_payload \<Rightarrow> unit settled) \<Rightarrow> task_form \<times> task_payload list" where
  "handleSubmit f onSubmit =
    (let f0 = f\<lparr>tf_error := []\<rparr> in
     if trim (tf_title f) = [] then
       (f0\<lparr>tf_error := js ''Title is required''\<rparr>, [])
     else if length (tf_title f) > 500 then
       (f0\<lparr>tf_error := js ''Title must be 500 characters or less''\<rparr>, [])
     else if length (tf_description f) > 5000 then
       (f0\<lparr>tf_error := js ''Description must be 5000 characters or less''\<rparr>, [])
     else
       (let data = \<lparr>p_title = trim (tf_title f),
                     p_description = (if trim (tf_description f) = [] then None
                                      else Some (trim (tf_description f)))\<rparr>
        in case onSubmit data of
             Resolved _ \<Rightarrow>
               (f0\<lparr>tf_title := [], tf_description := [], tf_loading := False\<rparr>, [data])
           | Rejected (Error m) \<Rightarrow>
               (f0\<lparr>tf_error := m, tf_loading := False\<rparr>, [data])
           | Rejected NotAnError \<Rightarrow>
               (f0\<lparr>tf_error := js ''Failed to save task'', tf_loading := False\<rparr>, [data])))"

text \<open>The banner \<open>{error && (<div>{error}</div>)}\<close>: rendered when \<open>error\<close> is truthy.\<close>

definition form_error_banner :: "task_form \<Rightarrow> jsstring option" where
  "form_error_banner f = (if tf_error f \<noteq> [] then Some (tf_error f) else None)"

section \<open>Tasks and the task list component\<close>

text \<open>
  The fields of \<open>Task\<close> the components read: \<open>id\<close>, \<open>title\<close>, \<open>description\<close>
  (possibly \<open>null\<close>), \<open>completed\<close>, \<open>created_at\<close>, \<open>updated_at\<close>. Identifiers are
  the integers the server assigns.
\<close>

record task =
  task_id :: int
  task_title :: jsstring
  task_description :: "jsstring option"
  completed :: bool
  created_at :: jsstring
  updated_at :: jsstring

text \<open>
  What \<open>TaskList\<close> returns: the loading indicator, the empty state, or the groups it
  renders from top to bottom. A group has its heading, the number in its count badge
  and the tasks handed to \<open>TaskItem\<close>, in order.
\<close>

record task_group =
  heading :: string
  badge :: nat
  items :: "task list"

datatype task_list_view = LoadingIndicator | EmptyState | Groups "task_group list"

definition TaskList :: "task list \<Rightarrow> bool \<Rightarrow> task_list_view" where
  "TaskList tasks loading =
    (if loading then LoadingIndicator
     else if length tasks = 0 then EmptyState
     else
       (let incompleteTasks = filter (\<lambda>t. \<not> completed t) tasks;
            completedTasks = filter (\<lambda>t. completed t) tasks
        in Groups
             ((if length incompleteTasks > 0
               then [\<lparr>heading = ''Active Tasks'', badge = length incompleteTasks,
                      items = incompleteTasks\<rparr>]
               else [])
              @ (if length completedTasks > 0
                 then [\<lparr>heading = ''Completed Tasks'', badge = length completedTasks,
                        items = completedTasks\<rparr>]
                 else []))))"

text \<open>A task with the given identifier and completion flag, for concrete runs.\<close>

definition sample_task :: "int \<Rightarrow> bool \<Rightarrow> task" where
  "sample_task i c =
     \<lparr>task_id = i, task_title = js ''Buy milk'', task_description = None, completed = c,
      created_at = js ''2026-02-07'', updated_at = js ''2026-02-07''\<rparr>"

section \<open>TaskItem\<close>

text \<open>
  The props and state hooks of \<open>TaskItem\<close>: the \<open>task\<close> prop, \<open>isDeleting\<close> and
  \<open>isToggling\<close>.
\<close>

record task_item =
  ti_task :: task
  ti_isDeleting :: bool
  ti_isToggling :: bool

text \<open>
  \<open>handleDelete\<close>. The answer of the browser's \<open>confirm\<close> dialog is the argument
  \<open>confirmed\<close>. The \<open>onDelete\<close> prop is a callback of the parent: it acts on the
  parent's state \<open>'s\<close> and settles. The handler returns how it settles, the item's state
  and the parent's state afterwards; a rejection of \<open>onDelete\<close> passes through the
  \<open>finally\<close> block and leaves the handler.
\<close>

definition handleDelete ::
  "task_item \<Rightarrow> bool \<Rightarrow> (int \<Rightarrow> 's \<Rightarrow> unit settled \<times> 's) \<Rightarrow> 's
     \<Rightarrow> unit settled \<times> task_item \<times> 's" where
  "handleDelete it confirmed onDelete s =
    (if \<not> confirmed then (Resolved (), it, s)
     else
       (case onDelete (task_id (ti_task it)) s of
          (r, s') \<Rightarrow> (r, it\<lparr>ti_isDeleting := False\<rparr>, s')))"

section \<open>DashboardPage\<close>

text \<open>
  The calls the dashboard makes on \<open>taskService\<close>, and the service as the page sees it:
  what each awaited call settles to.
\<close>

datatype service_call =
    GetTasks
  | CreateTask task_payload
  | UpdateTask int task_payload
  | ToggleComplete int
  | DeleteTask int

record task_service =
  getTasks :: "task list settled"
  createTask :: "task_payload \<Rightarrow> task settled"
  updateTask :: "int \<Rightarrow> task_payload \<Rightarrow> task settled"
  toggleComplete :: "int \<Rightarrow> task settled"
  deleteTask :: "int \<Rightarrow> unit settled"

text \<open>
  The state hooks of the page that its handlers read or write: \<open>tasks\<close>, \<open>loading\<close>,
  \<open>showForm\<close>, \<open>editingTask\<close>, \<open>error\<close>.
\<close>

record dashboard =
  d_tasks :: "task list"
  d_loading :: bool
  d_showForm :: bool
  d_editingTask :: "task option"
  d_error :: jsstring

text \<open>
  Each handler is a closure of the render it was created in: the \<open>tasks\<close> and
  \<open>editingTask\<close> it reads are those of that render. It calls the service, awaits the
  call, and then writes with \<open>setTasks\<close> a list built from the \<open>tasks\<close> it captured.
  The part after the \<open>await\<close> takes the captured \<open>tasks\<close>, what the call settled to
  and the page state at that moment, and returns how the handler settles and the page
  state after its writes. \<open>handleCreateTask\<close> and \<open>handleUpdateTask\<close> rethrow what the
  service throws; \<open>handleToggleComplete\<close> and \<open>handleDeleteTask\<close> catch it and set
  \<open>error\<close>.
\<close>

definition handleCreateTask_settle ::
  "task list \<Rightarrow> task settled \<Rightarrow> dashboard \<Rightarrow> unit settled \<times> dashboard" where
  "handleCreateTask_settle tasks outcome d =
    (case outcome of
       Resolved newTask \<Rightarrow> (Resolved (), d\<lparr>d_tasks := newTask # tasks, d_showForm := False\<rparr>)
     | Rejected err \<Rightarrow> (Rejected err, d))"

definition handleUpdateTask_settle ::
  "task list \<Rightarrow> task settled \<Rightarrow> dashboard \<Rightarrow> unit settled \<times> dashboard" where
  "handleUpdateTask_settle tasks outcome d =
    (case outcome of
       Resolved updatedTask \<Rightarrow>
         (Resolved (),
          d\<lparr>d_tasks := map (\<lambda>t. if task_id t = task_id updatedTask then updatedTask else t)
                           tasks,
            d_editingTask := None, d_showForm := False\<rparr>)
     | Rejected err \<Rightarrow> (Rejected err, d))"

definition handleToggleComplete_settle ::
  "task list \<Rightarrow> task settled \<Rightarrow> dashboard \<Rightarrow> unit settled \<times> dashboard" where
  "handleToggleComplete_settle tasks outcome d =
    (case outcome of
       Resolved updatedTask \<Rightarrow>
         (Resolved (),
          d\<lparr>d_tasks := map (\<lambda>t. if task_id t = task_id updatedTask then updatedTask else t)
                           tasks\<rparr>)
     | Rejected (Error m) \<Rightarrow> (Resolved (), d\<lparr>d_error := m\<rparr>)
     | Rejected NotAnError \<Rightarrow> (Resolved (), d\<lparr>d_error := js ''Failed to update task''\<rparr>))"

definition handleDeleteTask_settle ::
  "task list \<Rightarrow> int \<Rightarrow> unit settled \<Rightarrow> dashboard \<Rightarrow> unit settled \<times> dashboard" where
  "handleDeleteTask_settle tasks taskId outcome d =
    (case outcome of
       Resolved _ \<Rightarrow> (Resolved (), d\<lparr>d_tasks := filter (\<lambda>t. task_id t \<noteq> taskId) tasks\<rparr>)
     | Rejected (Error m) \<Rightarrow> (Resolved (), d\<lparr>d_error := m\<rparr>)
     | Rejected NotAnError \<Rightarrow> (Resolved (), d\<lparr>d_error := js ''Failed to delete task''\<rparr>))"

text \<open>
  A handler whose call settles before anything else happens to the page: the state it
  writes to is the one it was called in. It returns how it settles, the page state
  afterwards and the service calls it made.
\<close>

definition handleCreateTask ::
  "task_service \<Rightarrow> dashboard \<Rightarrow> task_payload \<Rightarrow> unit settled \<times> dashboard \<times> service_call list"
  where
  "handleCreateTask svc d data =
    (case handleCreateTask_settle (d_tasks d) (createTask svc data) d of
       (r, d') \<Rightarrow> (r, d', [CreateTask data]))"

definition handleUpdateTask ::
  "task_service \<Rightarrow> dashboard \<Rightarrow> task_payload \<Rightarrow> unit settled \<times> dashboard \<times> service_call list"
  where
  "handleUpdateTask svc d data =
    (case d_editingTask d of
       None \<Rightarrow> (Resolved (), d, [])
     | Some editingTask \<Rightarrow>
         (case handleUpdateTask_settle (d_tasks d)
                 (updateTask svc (task_id editingTask) data) d of
            (r, d') \<Rightarrow> (r, d', [UpdateTask (task_id editingTask) data])))"

definition handleToggleComplete ::
  "task_service \<Rightarrow> dashboard \<Rightarrow> int \<Rightarrow> unit settled \<times> dashboard \<times> service_call list" where
  "handleToggleComplete svc d taskId =
    (case handleToggleComplete_settle (d_tasks d) (toggleComplete svc taskId) d of
       (r, d') \<Rightarrow> (r, d', [ToggleComplete taskId]))"

definition handleDeleteTask ::
  "task_service \<Rightarrow> dashboard \<Rightarrow> int \<Rightarrow> unit settled \<times> dashboard \<times> service_call list" where
  "handleDeleteTask svc d taskId =
    (case handleDeleteTask_settle (d_tasks d) taskId (deleteTask svc taskId) d of
       (r, d') \<Rightarrow> (r, d', [DeleteTask taskId]))"

text \<open>
  The page between events. Pressing a control calls the handler of the current render,
  which captures the current \<open>tasks\<close> and issues its service call; the call waits in
  \<open>dr_pending\<close> with the captured list until it settles. \<open>handleUpdateTask\<close> returns at
  once when no task is being edited. The service decides what each call settles to.
\<close>

datatype mutation = Create task_payload | Update task_payload | Toggle int | Delete int

record pending_call =
  pc_tasks :: "task list"
  pc_call :: service_call

record dash_run =
  dr_page :: dashboard
  dr_pending :: "pending_call list"
  dr_calls :: "service_call list"

fun handler_call :: "dashboard \<Rightarrow> mutation \<Rightarrow> service_call option" where
  "handler_call d (Create data) = Some (CreateTask data)"
| "handler_call d (Update data) =
     (case d_editingTask d of
        None \<Rightarrow> None
      | Some editingTask \<Rightarrow> Some (UpdateTask (task_id editingTask) data))"
| "handler_call d (Toggle taskId) = Some (ToggleComplete taskId)"
| "handler_call d (Delete taskId) = Some (DeleteTask taskId)"

fun settle_call :: "task_service \<Rightarrow> task list \<Rightarrow> service_call \<Rightarrow> dashboard \<Rightarrow> dashboard" where
  "settle_call svc tasks (CreateTask data) d =
     snd (handleCreateTask_settle tasks (createTask svc data) d)"
| "settle_call svc tasks (UpdateTask taskId data) d =
     snd (handleUpdateTask_settle tasks (updateTask svc taskId data) d)"
| "settle_call svc tasks (ToggleComplete taskId) d =
     snd (handleToggleComplete_settle tasks (toggleComplete svc taskId) d)"
| "settle_call svc tasks (DeleteTask taskId) d =
     snd (handleDeleteTask_settle tasks taskId (deleteTask svc taskId) d)"
| "settle_call svc tasks GetTasks d = d"

datatype dash_event = Press mutation | SettleOldest

fun dash_step :: "task_service \<Rightarrow> dash_run \<Rightarrow> dash_event \<Rightarrow> dash_run" where
  "dash_step svc r (Press m) =
    (case handler_call (dr_page r) m of
       None \<Rightarrow> r
     | Some call \<Rightarrow>
         r\<lparr>dr_pending := dr_pending r @ [\<lparr>pc_tasks = d_tasks (dr_page r), pc_call = call\<rparr>],
           dr_calls := dr_calls r @ [call]\<rparr>)"
| "dash_step svc r SettleOldest =
    (case dr_pending r of
       [] \<Rightarrow> r
     | p # rest \<Rightarrow>
         r\<lparr>dr_page := settle_call svc (pc_tasks p) (pc_call p) (dr_page r),
           dr_pending := rest\<rparr>)"

definition dash_events :: "task_service \<Rightarrow> dash_run \<Rightarrow> dash_event list \<Rightarrow> dash_run" where
  "dash_events svc r es = foldl (dash_step svc) r es"

text \<open>
  The page passes \<open>handleDeleteTask\<close> down as the \<open>onDelete\<close> prop of every item
  (\<open>onDelete={handleDeleteTask}\<close> on \<open>TaskList\<close>, which hands it to \<open>TaskItem\<close>). As a
  callback it acts on the page state together with the log of service calls made so far.
\<close>

definition dashboard_onDelete ::
  "task_service \<Rightarrow> int \<Rightarrow> dashboard \<times> service_call list
     \<Rightarrow> unit settled \<times> (dashboard \<times> service_call list)" where
  "dashboard_onDelete svc taskId s =
    (case handleDeleteTask svc (fst s) taskId of
       (r, d', calls) \<Rightarrow> (r, (d', snd s @ calls)))"

text \<open>A service whose every call succeeds and a page showing given tasks, for concrete runs.\<close>

definition sample_dashboard :: "task list \<Rightarrow> dashboard" where
  "sample_dashboard tasks =
     \<lparr>d_tasks = tasks, d_loading = False, d_showForm = False, d_editingTask = None,
      d_error = []\<rparr>"


definition sample_service :: task_service where
  "sample_service =
     \<lparr>getTasks = Resolved [],
      createTask = (\<lambda>data. Resolved ((sample_task 7 False)\<lparr>task_title := p_title data,
                                        task_description := p_description data\<rparr>)),
      updateTask = (\<lambda>i data. Resolved ((sample_task i False)\<lparr>task_title := p_title data,
                                        task_description := p_description data\<rparr>)),
      toggleComplete = (\<lambda>i. Resolved (sample_task i True)),
      deleteTask = (\<lambda>i. Resolved ())\<rparr>"

section \<open>Chat service and chat page\<close>

datatype role = User | Assistant

text \<open>
  A \<open>Message\<close> as the pages build and show it: \<open>role\<close> and \<open>content\<close>. The
  request and response bodies of the chat endpoint, and a \<open>Conversation\<close>.
\<close>

record message =
  role :: role
  content :: jsstring

record chat_request =
  req_conversation_id :: "int option"
  req_message :: jsstring

record chat_response =
  resp_conversation_id :: int
  resp_response :: jsstring
  resp_timestamp :: jsstring

record conversation =
  conv_id :: int
  conv_created_at :: jsstring
  conv_updated_at :: jsstring

text \<open>\<open>chatService\<close> as the pages see it: what each awaited call settles to.\<close>

record chat_service =
  sendMessage :: "chat_request \<Rightarrow> chat_response settled"
  getConversations :: "conversation list settled"
  getConversationMessages :: "int \<Rightarrow> message list settled"

datatype chat_call = SendMessage chat_request | GetConversations | GetConversationMessages int

text \<open>
  The state hooks of \<open>ChatPage\<close>: \<open>messages\<close>, \<open>input\<close>, \<open>conversationId\<close>,
  \<open>loading\<close>, \<open>error\<close>.
\<close>

record chat_page =
  cp_messages :: "message list"
  cp_input :: jsstring
  cp_conversationId :: "int option"
  cp_loading :: bool
  cp_error :: "jsstring option"

definition initial_chat_page :: chat_page where
  "initial_chat_page =
     \<lparr>cp_messages = [], cp_input = [], cp_conversationId = None, cp_loading = False,
      cp_error = None\<rparr>"

text \<open>The test \<open>!conversationId\<close> on a \<open>number | null\<close>: true for \<open>null\<close> and for 0.\<close>

definition no_conversation :: "int option \<Rightarrow> bool" where
  "no_conversation cid = (cid = None \<or> cid = Some 0)"

text \<open>\<open>err instanceof Error ? err.message : 'Failed to send message'\<close>.\<close>

definition send_failure_text :: "thrown \<Rightarrow> jsstring" where
  "send_failure_text err =
     (case err of Error m \<Rightarrow> m | NotAnError \<Rightarrow> js ''Failed to send message'')"

text \<open>
  \<open>handleSendMessage\<close> of the chat page, split at its \<open>await\<close>. The first part runs up
  to the call of \<open>chatService.sendMessage\<close> and returns the state with the request issued,
  if any. The second part runs once the call has settled; it reads the \<open>conversationId\<close>
  the handler captured when it was called.
\<close>

definition ChatPage_begin :: "chat_page \<Rightarrow> chat_page \<times> chat_request option" where
  "ChatPage_begin c =
    (if trim (cp_input c) = [] \<or> cp_loading c then (c, None)
     else
       (let userMessage = trim (cp_input c);
            optimisticMessage = \<lparr>role = User, content = userMessage\<rparr>
        in (c\<lparr>cp_input := [], cp_error := None,
              cp_messages := cp_messages c @ [optimisticMessage], cp_loading := True\<rparr>,
            Some \<lparr>req_conversation_id = cp_conversationId c, req_message = userMessage\<rparr>)))"

definition ChatPage_settle ::
  "int option \<Rightarrow> chat_page \<Rightarrow> chat_response settled \<Rightarrow> chat_page" where
  "ChatPage_settle conversationId c outcome =
    (case outcome of
       Resolved response \<Rightarrow>
         c\<lparr>cp_conversationId :=
             (if no_conversation conversationId then Some (resp_conversation_id response)
              else cp_conversationId c),
           cp_messages := cp_messages c @ [\<lparr>role = Assistant, content = resp_response response\<rparr>],
           cp_loading := False\<rparr>
     | Rejected err \<Rightarrow>
         c\<lparr>cp_error := Some (send_failure_text err),
           cp_messages := butlast (cp_messages c), cp_loading := False\<rparr>)"

text \<open>The whole handler, with the requests it sent.\<close>

definition ChatPage_handleSendMessage ::
  "chat_page \<Rightarrow> (chat_request \<Rightarrow> chat_response settled) \<Rightarrow> chat_page \<times> chat_request list"
  where
  "ChatPage_handleSendMessage c send =
    (case ChatPage_begin c of
       (c', None) \<Rightarrow> (c', [])
     | (c', Some req) \<Rightarrow> (ChatPage_settle (cp_conversationId c) c' (send req), [req]))"

text \<open>
  What the chat page renders from its state: the transcript area (the "Start a
  conversation" panel when there are no messages, otherwise one bubble per message and the
  typing indicator while loading), the error banner below it (\<open>{error && ...}\<close>), and the
  input form.
\<close>

datatype transcript_view = StartConversation | Bubbles "message list" bool

record chat_view =
  transcript :: transcript_view
  error_banner :: "jsstring option"
  input_value :: jsstring
  input_disabled :: bool
  send_disabled :: bool

definition ChatPage_render :: "chat_page \<Rightarrow> chat_view" where
  "ChatPage_render c =
     \<lparr>transcript = (if length (cp_messages c) = 0 then StartConversation
                    else Bubbles (cp_messages c) (cp_loading c)),
      error_banner = (case cp_error c of None \<Rightarrow> None
                      | Some m \<Rightarrow> if m \<noteq> [] then Some m else None),
      input_value = cp_input c,
      input_disabled = cp_loading c,
      send_disabled = (trim (cp_input c) = [] \<or> cp_loading c)\<rparr>"

text \<open>
  The page between events. A request that has been sent and has not settled waits in
  \<open>in_flight\<close> with the \<open>conversationId\<close> its handler captured; \<open>issued\<close> logs every
  request sent. The events are typing into the input, submitting the form, and the oldest
  waiting request settling.
\<close>

datatype chat_event = Type jsstring | Submit | Settle "chat_response settled"

record chat_run =
  page :: chat_page
  in_flight :: "(int option \<times> chat_request) list"
  issued :: "chat_request list"

fun chat_step :: "chat_run \<Rightarrow> chat_event \<Rightarrow> chat_run" where
  "chat_step r (Type text) = r\<lparr>page := (page r)\<lparr>cp_input := text\<rparr>\<rparr>"
| "chat_step r Submit =
    (case ChatPage_begin (page r) of
       (c, None) \<Rightarrow> r\<lparr>page := c\<rparr>
     | (c, Some req) \<Rightarrow>
         r\<lparr>page := c, in_flight := in_flight r @ [(cp_conversationId (page r), req)],
           issued := issued r @ [req]\<rparr>)"
| "chat_step r (Settle outcome) =
    (case in_flight r of
       [] \<Rightarrow> r
     | (cid, req) # rest \<Rightarrow>
         r\<lparr>page := ChatPage_settle cid (page r) outcome, in_flight := rest\<rparr>)"

definition chat_events :: "chat_run \<Rightarrow> chat_event list \<Rightarrow> chat_run" where
  "chat_events r es = foldl chat_step r es"

text \<open>
  A message that may be sent: not empty, equal to its own trimming, and with a code unit
  that is not white space. The invariant of the page between events: at most one request
  waits, the \<open>loading\<close> flag is up while one does, and every request sent so far carries a
  message that may be sent.
\<close>

definition sendable :: "jsstring \<Rightarrow> bool" where
  "sendable m = (m \<noteq> [] \<and> trim m = m \<and> (\<exists>u\<in>set m. \<not> is_ws u))"

definition chat_inv :: "chat_run \<Rightarrow> bool" where
  "chat_inv r =
     (length (in_flight r) \<le> 1
      \<and> (in_flight r \<noteq> [] \<longrightarrow> cp_loading (page r))
      \<and> (\<forall>req\<in>set (issued r). sendable (req_message req)))"

section \<open>Token storage and the chat page's mount\<close>

text \<open>
  \<open>localStorage\<close> is a map from keys to strings; the window is absent during server
  rendering (\<open>typeof window === 'undefined'\<close>).
\<close>

type_synonym local_storage = "jsstring \<rightharpoonup> jsstring"

definition tokenStorage_getToken :: "local_storage option \<Rightarrow> jsstring option" where
  "tokenStorage_getToken window =
     (case window of None \<Rightarrow> None | Some localStorage \<Rightarrow> localStorage (js ''auth_token''))"

definition getToken :: "local_storage option \<Rightarrow> jsstring option" where
  "getToken window = tokenStorage_getToken window"

text \<open>\<open>!!this.getToken()\<close>: a token that is present and not the empty string.\<close>

definition isAuthenticated :: "local_storage option \<Rightarrow> bool" where
  "isAuthenticated window =
     (case getToken window of None \<Rightarrow> False | Some token \<Rightarrow> token \<noteq> [])"

text \<open>
  \<open>loadConversationHistory\<close>: the most recent conversation and its messages; a failure is
  logged to the console and the state is left as it is at that point.
\<close>

definition loadConversationHistory ::
  "chat_service \<Rightarrow> chat_page \<Rightarrow> chat_page \<times> chat_call list" where
  "loadConversationHistory svc c =
    (case getConversations svc of
       Rejected err \<Rightarrow> (c, [GetConversations])
     | Resolved conversations \<Rightarrow>
         (case conversations of
            [] \<Rightarrow> (c, [GetConversations])
          | latestConversation # _ \<Rightarrow>
              (let c1 = c\<lparr>cp_conversationId := Some (conv_id latestConversation)\<rparr>;
                   calls = [GetConversations,
                            GetConversationMessages (conv_id latestConversation)]
               in case getConversationMessages svc (conv_id latestConversation) of
                    Rejected err \<Rightarrow> (c1, calls)
                  | Resolved conversationMessages \<Rightarrow>
                      (c1\<lparr>cp_messages :=
                            map (\<lambda>msg. \<lparr>role = role msg, content = content msg\<rparr>)
                                conversationMessages\<rparr>,
                       calls))))"

text \<open>
  Mounting the chat page in the browser. The component function returns its JSX from the
  initial state; the effects run after that render, in the order they are declared: the
  authentication check, which pushes \<open>/signin\<close> on the router when not authenticated, and
  the history load, which runs only when authenticated.
\<close>

record chat_mount =
  first_render :: chat_view
  pushed :: "jsstring list"
  history_calls :: "chat_call list"
  after_effects :: chat_page

definition ChatPage_mount :: "local_storage \<Rightarrow> chat_service \<Rightarrow> chat_mount" where
  "ChatPage_mount localStorage svc =
    (let view = ChatPage_render initial_chat_page;
         navigation = (if \<not> isAuthenticated (Some localStorage) then [js ''/signin''] else []);
         loaded = (if isAuthenticated (Some localStorage)
                   then loadConversationHistory svc initial_chat_page
                   else (initial_chat_page, []))
     in \<lparr>first_render = view, pushed = navigation, history_calls = snd loaded,
         after_effects = fst loaded\<rparr>)"

text \<open>A chat service whose calls succeed, and one whose calls fail, for concrete runs.\<close>

definition sample_chat_service :: chat_service where
  "sample_chat_service =
     \<lparr>sendMessage = (\<lambda>req. Resolved \<lparr>resp_conversation_id = 5,
                                      resp_response = js ''Added task 1'',
                                      resp_timestamp = js ''2026-02-07T10:00:00''\<rparr>),
      getConversations = Resolved [],
      getConversationMessages = (\<lambda>i. Resolved [])\<rparr>"

definition failing_chat_service :: chat_service where
  "failing_chat_service =
     \<lparr>sendMessage = (\<lambda>req. Rejected (Error (js ''Failed to fetch''))),
      getConversations = Rejected (Error (js ''Failed to fetch'')),
      getConversationMessages = (\<lambda>i. Rejected (Error (js ''Failed to fetch'')))\<rparr>"

text \<open>Local storage with nothing in it, and with a string stored under \<open>auth_token\<close>.\<close>

definition empty_storage :: local_storage where
  "empty_storage = Map.empty"

definition storage_with_token :: "jsstring \<Rightarrow> local_storage" where
  "storage_with_token token = [js ''auth_token'' \<mapsto> token]"

section \<open>The dashboard's chat widget\<close>

text \<open>
  The dashboard with the embedded chat adds to the page state the hooks \<open>chatOpen\<close>,
  \<open>messages\<close>, \<open>chatInput\<close>, \<open>conversationId\<close>, \<open>chatLoading\<close>, \<open>chatError\<close>.
\<close>

record chat_dashboard = dashboard +
  cd_chatOpen :: bool
  cd_messages :: "message list"
  cd_chatInput :: jsstring
  cd_conversationId :: "int option"
  cd_chatLoading :: bool
  cd_chatError :: "jsstring option"

text \<open>\<open>loadTasks\<close>: fetches the list and replaces \<open>tasks\<close>, or sets \<open>error\<close>.\<close>

definition loadTasks ::
  "task_service \<Rightarrow> 'a dashboard_scheme \<Rightarrow> 'a dashboard_scheme \<times> service_call list" where
  "loadTasks svc d =
    (case getTasks svc of
       Resolved fetchedTasks \<Rightarrow>
         (d\<lparr>d_error := [], d_tasks := fetchedTasks, d_loading := False\<rparr>, [GetTasks])
     | Rejected (Error m) \<Rightarrow> (d\<lparr>d_error := m, d_loading := False\<rparr>, [GetTasks])
     | Rejected NotAnError \<Rightarrow>
         (d\<lparr>d_error := js ''Failed to load tasks'', d_loading := False\<rparr>, [GetTasks]))"

text \<open>
  The widget's \<open>handleSendMessage\<close>, split at its \<open>await\<close> like the chat page's. After a
  successful turn it also calls \<open>loadTasks\<close>.
\<close>

definition DashboardPage_begin :: "chat_dashboard \<Rightarrow> chat_dashboard \<times> chat_request option"
  where
  "DashboardPage_begin w =
    (if trim (cd_chatInput w) = [] \<or> cd_chatLoading w then (w, None)
     else
       (let userMessage = trim (cd_chatInput w)
        in (w\<lparr>cd_chatInput := [], cd_chatError := None,
              cd_messages := cd_messages w @ [\<lparr>role = User, content = userMessage\<rparr>],
              cd_chatLoading := True\<rparr>,
            Some \<lparr>req_conversation_id = cd_conversationId w, req_message = userMessage\<rparr>)))"

definition DashboardPage_settle ::
  "task_service \<Rightarrow> int option \<Rightarrow> chat_dashboard \<Rightarrow> chat_response settled
     \<Rightarrow> chat_dashboard \<times> service_call list" where
  "DashboardPage_settle svc conversationId w outcome =
    (case outcome of
       Resolved response \<Rightarrow>
         (let w1 = w\<lparr>cd_conversationId :=
                       (if no_conversation conversationId
                        then Some (resp_conversation_id response)
                        else cd_conversationId w),
                     cd_messages := cd_messages w
                        @ [\<lparr>role = Assistant, content = resp_response response\<rparr>]\<rparr>;
              loaded = loadTasks svc w1
          in ((fst loaded)\<lparr>cd_chatLoading := False\<rparr>, snd loaded))
     | Rejected err \<Rightarrow>
         (w\<lparr>cd_chatError := Some (send_failure_text err),
            cd_messages := butlast (cd_messages w), cd_chatLoading := False\<rparr>, []))"

definition DashboardPage_handleSendMessage ::
  "chat_dashboard \<Rightarrow> (chat_request \<Rightarrow> chat_response settled) \<Rightarrow> task_service
     \<Rightarrow> chat_dashboard \<times> chat_request list \<times> service_call list" where
  "DashboardPage_handleSendMessage w send svc =
    (case DashboardPage_begin w of
       (w', None) \<Rightarrow> (w', [], [])
     | (w', Some req) \<Rightarrow>
         (case DashboardPage_settle svc (cd_conversationId w) w' (send req) of
            (w'', calls) \<Rightarrow> (w'', [req], calls)))"


definition sample_widget :: "jsstring \<Rightarrow> chat_dashboard" where
  "sample_widget text =
     \<lparr>d_tasks = [], d_loading = False, d_showForm = False, d_editingTask = None,
      d_error = [], cd_chatOpen = True, cd_messages = [], cd_chatInput = text,
      cd_conversationId = None, cd_chatLoading = False, cd_chatError = None\<rparr>"

text \<open>
  The widget between events, like the chat page: the requests waiting, each with the
  \<open>conversationId\<close> its handler captured, and the log of requests sent.
\<close>

record widget_run =
  w_page :: chat_dashboard
  w_in_flight :: "(int option \<times> chat_request) list"
  w_issued :: "chat_request list"

fun widget_step :: "task_service \<Rightarrow> widget_run \<Rightarrow> chat_event \<Rightarrow> widget_run" where
  "widget_step svc r (Type typed) = r\<lparr>w_page := (w_page r)\<lparr>cd_chatInput := typed\<rparr>\<rparr>"
| "widget_step svc r Submit =
    (case DashboardPage_begin (w_page r) of
       (w, None) \<Rightarrow> r\<lparr>w_page := w\<rparr>
     | (w, Some req) \<Rightarrow>
         r\<lparr>w_page := w, w_in_flight := w_in_flight r @ [(cd_conversationId (w_page r), req)],
           w_issued := w_issued r @ [req]\<rparr>)"
| "widget_step svc r (Settle outcome) =
    (case w_in_flight r of
       [] \<Rightarrow> r
     | (cid, req) # rest \<Rightarrow>
         r\<lparr>w_page := fst (DashboardPage_settle svc cid (w_page r) outcome),
           w_in_flight := rest\<rparr>)"

definition widget_events :: "task_service \<Rightarrow> widget_run \<Rightarrow> chat_event list \<Rightarrow> widget_run"
  where
  "widget_events svc r es = foldl (widget_step svc) r es"

definition widget_inv :: "widget_run \<Rightarrow> bool" where
  "widget_inv r =
     (length (w_in_flight r) \<le> 1
      \<and> (w_in_flight r \<noteq> [] \<longrightarrow> cd_chatLoading (w_page r))
      \<and> (\<forall>req\<in>set (w_issued r). sendable (req_message req)))"

section \<open>ApiClient\<close>

text \<open>
  A value produced by \<open>JSON.parse\<close>. A number is given by the string ToString renders
  it as, which tells any two numbers apart except the two zeros, both rendered "0". An
  object lists its own properties, each key once.
\<close>

datatype json =
    JNull
  | JBool bool
  | JNum jsstring
  | JStr jsstring
  | JArr "json list"
  | JObj "(jsstring \<times> json) list"

text \<open>Reading a property of a value that is not \<open>null\<close>: \<open>None\<close> is \<open>undefined\<close>.\<close>

definition get_prop :: "json \<Rightarrow> jsstring \<Rightarrow> json option" where
  "get_prop v k = (case v of JObj props \<Rightarrow> map_of props k | _ \<Rightarrow> None)"

text \<open>ToBoolean, as \<open>||\<close> applies it.\<close>

fun truthy :: "json \<Rightarrow> bool" where
  "truthy JNull = False"
| "truthy (JBool b) = b"
| "truthy (JNum n) = (n \<noteq> js ''0'')"
| "truthy (JStr s) = (s \<noteq> [])"
| "truthy (JArr xs) = True"
| "truthy (JObj props) = True"

text \<open>A property that is absent or falsy, so that \<open>||\<close> moves on to its right operand.\<close>

definition falsy_prop :: "json \<Rightarrow> jsstring \<Rightarrow> bool" where
  "falsy_prop v k = (case get_prop v k of None \<Rightarrow> True | Some x \<Rightarrow> \<not> truthy x)"

text \<open>Decimal digits of a status code, as the template literal renders it.\<close>

function show_nat :: "nat \<Rightarrow> jsstring" where
  "show_nat n = (if n < 10 then [of_nat (48 + n)]
                 else show_nat (n div 10) @ [of_nat (48 + n mod 10)])"
  by pat_completeness auto
termination
  by (relation "measure id") auto

declare show_nat.simps [simp del]

text \<open>
  ToString, which \<open>new Error(v)\<close> applies to its argument; \<open>None\<close> when the conversion
  throws a \<open>TypeError\<close>. A string is itself. An array is its elements joined by commas,
  \<open>null\<close> elements being empty. An object is \<open>[object Object]\<close>, unless it has an own
  property \<open>toString\<close>: that property is not callable, \<open>valueOf\<close> gives no primitive
  either, and the conversion throws.
\<close>

fun to_string :: "json \<Rightarrow> jsstring option" and join_elems :: "json list \<Rightarrow> jsstring option"
  where
  "to_string JNull = Some (js ''null'')"
| "to_string (JBool b) = Some (if b then js ''true'' else js ''false'')"
| "to_string (JNum n) = Some n"
| "to_string (JStr s) = Some s"
| "to_string (JArr xs) = join_elems xs"
| "to_string (JObj props) =
     (case map_of props (js ''toString'') of
        None \<Rightarrow> Some (js ''[object Object]'')
      | Some m \<Rightarrow> None)"
| "join_elems [] = Some []"
| "join_elems [x] = (if x = JNull then Some [] else to_string x)"
| "join_elems (x # y # ys) =
     (case (if x = JNull then Some [] else to_string x) of
        None \<Rightarrow> None
      | Some a \<Rightarrow>
          (case join_elems (y # ys) of
             None \<Rightarrow> None
           | Some b \<Rightarrow> Some (a @ js '','' @ b)))"

text \<open>
  A response as \<open>request\<close> reads it: the status, and what \<open>response.json()\<close> gives,
  the parsed body or a rejection with the parser's \<open>SyntaxError\<close> message. \<open>response.ok\<close>
  is true for the statuses 200 to 299.
\<close>

datatype json_body = Parsed json | Unparsable jsstring

record response =
  status :: nat
  body :: json_body

definition ok :: "response \<Rightarrow> bool" where
  "ok r = (200 \<le> status r \<and> status r \<le> 299)"

text \<open>\<open>await response.json().catch(() => ({}))\<close>.\<close>

definition body_data :: "response \<Rightarrow> json" where
  "body_data r = (case body r of Parsed v \<Rightarrow> v | Unparsable m \<Rightarrow> JObj [])"

text \<open>
  The options of \<open>request\<close>: \<open>token\<close> and the \<open>RequestInit\<close> fields the client sets.
  What \<open>fetch\<close> is called with: the URL and the init object.
\<close>

record request_options =
  opt_method :: "jsstring option"
  opt_body :: "jsstring option"
  opt_headers :: "jsstring \<rightharpoonup> jsstring"
  opt_token :: "jsstring option"

record fetch_call =
  fc_url :: jsstring
  fc_method :: "jsstring option"
  fc_body :: "jsstring option"
  fc_headers :: "jsstring \<rightharpoonup> jsstring"

text \<open>\<open>data.detail || data.message || `HTTP error! status: ${response.status}`\<close>.\<close>

definition errorMessage :: "json \<Rightarrow> nat \<Rightarrow> json" where
  "errorMessage data st =
    (let fallback = JStr (js ''HTTP error! status: '' @ show_nat st);
         second = (case get_prop data (js ''message'') of
                     None \<Rightarrow> fallback
                   | Some v \<Rightarrow> if truthy v then v else fallback)
     in case get_prop data (js ''detail'') of
          None \<Rightarrow> second
        | Some v \<Rightarrow> if truthy v then v else second)"

text \<open>
  The messages of the \<open>TypeError\<close> that reading a property of \<open>null\<close> throws and of the
  one a failed conversion to a string throws (the wording of V8).
\<close>

definition null_property_message :: "string \<Rightarrow> jsstring" where
  "null_property_message prop =
     js (''Cannot read properties of null (reading '' @ [CHR 0x27] @ prop @ [CHR 0x27] @ '')'')"

definition no_primitive_message :: jsstring where
  "no_primitive_message = js ''Cannot convert object to primitive value''"

text \<open>
  \<open>ApiClient.request\<close>, for a client with the given base URL and a \<open>fetch\<close> that
  settles as given. It returns what the promise settles to and the calls made on
  \<open>fetch\<close>.
\<close>

definition request ::
  "jsstring \<Rightarrow> (fetch_call \<Rightarrow> response settled) \<Rightarrow> jsstring \<Rightarrow> request_options
     \<Rightarrow> json settled \<times> fetch_call list" where
  "request baseUrl fetch endpoint options =
    (let headers0 = [js ''Content-Type'' \<mapsto> js ''application/json''] ++ opt_headers options;
         headers = (case opt_token options of
                      None \<Rightarrow> headers0
                    | Some token \<Rightarrow>
                        if token \<noteq> []
                        then headers0(js ''Authorization'' \<mapsto> js ''Bearer '' @ token)
                        else headers0);
         url = baseUrl @ endpoint;
         call = \<lparr>fc_url = url, fc_method = opt_method options, fc_body = opt_body options,
                 fc_headers = headers\<rparr>
     in (case fetch call of
           Rejected (Error m) \<Rightarrow> Rejected (Error m)
         | Rejected NotAnError \<Rightarrow> Rejected (Error (js ''An unexpected error occurred''))
         | Resolved response \<Rightarrow>
             if status response = 204 then Resolved (JObj [])
             else if \<not> ok response then
               (let data = body_data response
                in if data = JNull then Rejected (Error (null_property_message ''detail''))
                   else (case to_string (errorMessage data (status response)) of
                           Some m \<Rightarrow> Rejected (Error m)
                         | None \<Rightarrow> Rejected (Error no_primitive_message)))
             else
               (case body response of
                  Parsed data \<Rightarrow> Resolved data
                | Unparsable m \<Rightarrow> Rejected (Error m)),
         [call]))"

text \<open>A \<open>fetch\<close> that resolves with the given response, and options for concrete runs.\<close>

definition responding :: "response \<Rightarrow> fetch_call \<Rightarrow> response settled" where
  "responding r call = Resolved r"

definition sample_options :: "jsstring option \<Rightarrow> request_options" where
  "sample_options token =
     \<lparr>opt_method = Some (js ''GET''), opt_body = None, opt_headers = Map.empty,
      opt_token = token\<rparr>"

section \<open>Properties of the task form\<close>

lemma js_nonempty: "s \<noteq> [] \<Longrightarrow> js s \<noteq> []"
  by (simp add: js_def)

text \<open>
  C1. On every submission, a title that is empty after trimming, a title longer than 500
  code units or a description longer than 5000 code units makes the form show an inline
  error, and \<open>onSubmit\<close> is not called. Every other submission passes validation and
  \<open>onSubmit\<close> is called exactly once; so it is for a title of exactly 500 code units
  (one that is not blank, the blank ones being the first case above) with a description
  of at most 5000.
\<close>

theorem handleSubmit_validation:
  "(trim (tf_title f) = [] \<or> 500 < length (tf_title f) \<or> 5000 < length (tf_description f)
      \<longrightarrow> form_error_banner (fst (handleSubmit f onSubmit)) \<noteq> None
          \<and> snd (handleSubmit f onSubmit) = [])
   \<and> (trim (tf_title f) \<noteq> [] \<and> length (tf_title f) \<le> 500
        \<and> length (tf_description f) \<le> 5000
      \<longrightarrow> length (snd (handleSubmit f onSubmit)) = 1)
   \<and> (length (tf_title f) = 500 \<and> trim (tf_title f) \<noteq> [] \<and> length (tf_description f) \<le> 5000
      \<longrightarrow> length (snd (handleSubmit f onSubmit)) = 1)"
  by (auto simp: handleSubmit_def Let_def form_error_banner_def js_nonempty
           split: settled.splits thrown.splits)

theorem handleSubmit_validation_witness:
  "length (snd (handleSubmit
      \<lparr>tf_title = replicate 500 97, tf_description = [], tf_loading = False, tf_error = []\<rparr>
      (\<lambda>_. Resolved ()))) = 1
   \<and> snd (handleSubmit
      \<lparr>tf_title = replicate 500 32, tf_description = [], tf_loading = False, tf_error = []\<rparr>
      (\<lambda>_. Resolved ())) = []
   \<and> snd (handleSubmit
      \<lparr>tf_title = replicate 501 97, tf_description = [], tf_loading = False, tf_error = []\<rparr>
      (\<lambda>_. Resolved ())) = []"
proof -
  let ?ok = "\<lparr>tf_title = replicate 500 97, tf_description = [], tf_loading = False,
              tf_error = []\<rparr>"
  let ?blank = "\<lparr>tf_title = replicate 500 32, tf_description = [], tf_loading = False,
              tf_error = []\<rparr>"
  let ?long = "\<lparr>tf_title = replicate 501 97, tf_description = [], tf_loading = False,
              tf_error = []\<rparr>"
  have ok: "length (tf_title ?ok) = 500 \<and> trim (tf_title ?ok) \<noteq> []
            \<and> length (tf_description ?ok) \<le> 5000"
    by (simp add: trim_def is_ws_def)
  have blank: "trim (tf_title ?blank) = []"
    by (simp add: trim_def is_ws_def)
  have long: "500 < length (tf_title ?long)"
    by simp
  show ?thesis
    using handleSubmit_validation [of ?ok "\<lambda>_. Resolved ()"] ok
          handleSubmit_validation [of ?blank "\<lambda>_. Resolved ()"] blank
          handleSubmit_validation [of ?long "\<lambda>_. Resolved ()"] long
    by blast
qed

text \<open>
  C10. A submission that passes validation calls \<open>onSubmit\<close> once, with the payload
  whose title is the trimmed title and whose description is \<open>null\<close> when the trimmed
  description is empty and the trimmed description otherwise. So every payload the form
  submits has these fields, and its description is never the empty string.
\<close>

theorem handleSubmit_payload:
  "(trim (tf_title f) \<noteq> [] \<and> length (tf_title f) \<le> 500
      \<and> length (tf_description f) \<le> 5000 \<longrightarrow>
      snd (handleSubmit f onSubmit)
        = [\<lparr>p_title = trim (tf_title f),
            p_description = (if trim (tf_description f) = [] then None
                             else Some (trim (tf_description f)))\<rparr>])
   \<and> (\<forall>d\<in>set (snd (handleSubmit f onSubmit)).
         p_title d = trim (tf_title f)
         \<and> p_description d = (if trim (tf_description f) = [] then None
                              else Some (trim (tf_description f)))
         \<and> p_description d \<noteq> Some [])"
  by (auto simp: handleSubmit_def Let_def split: if_splits settled.splits thrown.splits)

theorem handleSubmit_payload_witness:
  "snd (handleSubmit \<lparr>tf_title = js '' Buy milk '', tf_description = js ''  '',
                      tf_loading = False, tf_error = []\<rparr> (\<lambda>_. Resolved ()))
     = [\<lparr>p_title = js ''Buy milk'', p_description = None\<rparr>]
   \<and> snd (handleSubmit \<lparr>tf_title = js ''Buy milk'', tf_description = js '' 2 litres'',
                      tf_loading = False, tf_error = []\<rparr> (\<lambda>_. Rejected NotAnError))
     = [\<lparr>p_title = js ''Buy milk'', p_description = Some (js ''2 litres'')\<rparr>]"
proof -
  let ?f = "\<lparr>tf_title = js '' Buy milk '', tf_description = js ''  '',
             tf_loading = False, tf_error = []\<rparr>"
  let ?g = "\<lparr>tf_title = js ''Buy milk'', tf_description = js '' 2 litres'',
             tf_loading = False, tf_error = []\<rparr>"
  have f: "trim (tf_title ?f) = js ''Buy milk''" "trim (tf_description ?f) = []"
    "length (tf_title ?f) \<le> 500" "length (tf_description ?f) \<le> 5000"
    by (simp_all add: trim_def is_ws_def js_def)
  have g: "trim (tf_title ?g) = js ''Buy milk''" "trim (tf_description ?g) = js ''2 litres''"
    "length (tf_title ?g) \<le> 500" "length (tf_description ?g) \<le> 5000"
    by (simp_all add: trim_def is_ws_def js_def)
  have ne: "js ''Buy milk'' \<noteq> []" "js ''2 litres'' \<noteq> []"
    by (simp_all add: js_def)
  note first = handleSubmit_payload [of ?f "\<lambda>_. Resolved ()"]
  note second = handleSubmit_payload [of ?g "\<lambda>_. Rejected NotAnError"]
  from first f ne
  have a: "snd (handleSubmit ?f (\<lambda>_. Resolved ()))
      = [\<lparr>p_title = js ''Buy milk'', p_description = None\<rparr>]"
    by presburger
  from second g ne
  have b: "snd (handleSubmit ?g (\<lambda>_. Rejected NotAnError))
      = [\<lparr>p_title = js ''Buy milk'', p_description = Some (js ''2 litres'')\<rparr>]"
    by presburger
  from a b show ?thesis
    by blast
qed

section \<open>Properties of the task list\<close>

text \<open>
  C2. Once loading is over, an empty list renders the empty state, and a non-empty list
  renders groups whose tasks, read from top to bottom, are exactly the tasks with
  \<open>completed = false\<close> in input order followed by exactly the tasks with
  \<open>completed = true\<close> in input order. The "Active Tasks" group comes before the
  "Completed Tasks" group, each rendered group holds exactly the tasks of its kind and its
  badge is their number, no task is in both groups, and the rendered tasks are the input
  tasks with their multiplicities.
\<close>

theorem TaskList_partition:
  "TaskList [] False = EmptyState
   \<and> (tasks \<noteq> [] \<longrightarrow>
        (\<exists>gs. TaskList tasks False = Groups gs
           \<and> concat (map items gs)
               = filter (\<lambda>t. \<not> completed t) tasks @ filter (\<lambda>t. completed t) tasks
           \<and> map heading gs
               = (if \<exists>t\<in>set tasks. \<not> completed t then [''Active Tasks''] else [])
                 @ (if \<exists>t\<in>set tasks. completed t then [''Completed Tasks''] else [])
           \<and> (\<forall>g\<in>set gs. badge g = length (items g)
                 \<and> items g
                     = filter (\<lambda>t. completed t = (heading g = ''Completed Tasks'')) tasks)
           \<and> (\<forall>g\<in>set gs. \<forall>h\<in>set gs. heading g \<noteq> heading h
                 \<longrightarrow> set (items g) \<inter> set (items h) = {})
           \<and> mset (concat (map items gs)) = mset tasks))"
proof (intro conjI impI)
  show "TaskList [] False = EmptyState"
    by (simp add: TaskList_def)
next
  assume ne: "tasks \<noteq> []"
  let ?a = "filter (\<lambda>t. \<not> completed t) tasks"
  let ?c = "filter (\<lambda>t. completed t) tasks"
  let ?gs = "(if length ?a > 0
              then [\<lparr>heading = ''Active Tasks'', badge = length ?a, items = ?a\<rparr>] else [])
             @ (if length ?c > 0
                then [\<lparr>heading = ''Completed Tasks'', badge = length ?c, items = ?c\<rparr>]
                else [])"
  have view: "TaskList tasks False = Groups ?gs"
    using ne by (simp add: TaskList_def Let_def)
  have order: "concat (map items ?gs) = ?a @ ?c"
    by simp
  have heads: "map heading ?gs
      = (if \<exists>t\<in>set tasks. \<not> completed t then [''Active Tasks''] else [])
        @ (if \<exists>t\<in>set tasks. completed t then [''Completed Tasks''] else [])"
    by (auto simp: filter_empty_conv)
  have each: "\<forall>g\<in>set ?gs. badge g = length (items g)
      \<and> items g = filter (\<lambda>t. completed t = (heading g = ''Completed Tasks'')) tasks"
    by (auto intro: filter_cong)
  have disj: "\<forall>g\<in>set ?gs. \<forall>h\<in>set ?gs. heading g \<noteq> heading h
      \<longrightarrow> set (items g) \<inter> set (items h) = {}"
    by auto
  have all: "mset (concat (map items ?gs)) = mset tasks"
    unfolding order by (induction tasks) simp_all
  from view order heads each disj all
  show "\<exists>gs. TaskList tasks False = Groups gs
           \<and> concat (map items gs) = ?a @ ?c
           \<and> map heading gs
               = (if \<exists>t\<in>set tasks. \<not> completed t then [''Active Tasks''] else [])
                 @ (if \<exists>t\<in>set tasks. completed t then [''Completed Tasks''] else [])
           \<and> (\<forall>g\<in>set gs. badge g = length (items g)
                 \<and> items g
                     = filter (\<lambda>t. completed t = (heading g = ''Completed Tasks'')) tasks)
           \<and> (\<forall>g\<in>set gs. \<forall>h\<in>set gs. heading g \<noteq> heading h
                 \<longrightarrow> set (items g) \<inter> set (items h) = {})
           \<and> mset (concat (map items gs)) = mset tasks"
    by blast
qed

theorem TaskList_partition_witness:
  "\<exists>gs. TaskList [sample_task 1 False, sample_task 2 True, sample_task 3 False] False
          = Groups gs
      \<and> concat (map items gs) = [sample_task 1 False, sample_task 3 False, sample_task 2 True]
      \<and> map heading gs = [''Active Tasks'', ''Completed Tasks'']"
proof -
  have ne: "[sample_task 1 False, sample_task 2 True, sample_task 3 False] \<noteq> []"
    by simp
  have flags: "\<not> completed (sample_task 1 False)" "completed (sample_task 2 True)"
    "\<not> completed (sample_task 3 False)"
    by (simp_all add: sample_task_def)
  from TaskList_partition [of "[sample_task 1 False, sample_task 2 True, sample_task 3 False]"]
    ne flags
  show ?thesis
    by auto
qed

section \<open>Properties of the dashboard handlers and the task item\<close>

text \<open>
  A mutation whose call settles before anything else is written to the page: the handler
  makes no call that fetches the list, a successful create puts the returned task in front
  of the old list, a successful update or toggle keeps the length and, position by
  position, puts the returned task where the old entry has the returned task's id and
  keeps every other entry, and a successful delete keeps, in order, exactly the entries
  whose id is not the deleted one.
\<close>

lemma mutation_alone:
  "(createTask svc data = Resolved newTask \<longrightarrow>
      d_tasks (fst (snd (handleCreateTask svc d data))) = newTask # d_tasks d
      \<and> GetTasks \<notin> set (snd (snd (handleCreateTask svc d data))))
   \<and> (d_editingTask d = Some e \<and> updateTask svc (task_id e) data = Resolved u \<longrightarrow>
      length (d_tasks (fst (snd (handleUpdateTask svc d data)))) = length (d_tasks d)
      \<and> (\<forall>i<length (d_tasks d).
            d_tasks (fst (snd (handleUpdateTask svc d data))) ! i
              = (if task_id (d_tasks d ! i) = task_id u then u else d_tasks d ! i))
      \<and> GetTasks \<notin> set (snd (snd (handleUpdateTask svc d data))))
   \<and> (toggleComplete svc k = Resolved v \<longrightarrow>
      length (d_tasks (fst (snd (handleToggleComplete svc d k)))) = length (d_tasks d)
      \<and> (\<forall>i<length (d_tasks d).
            d_tasks (fst (snd (handleToggleComplete svc d k))) ! i
              = (if task_id (d_tasks d ! i) = task_id v then v else d_tasks d ! i))
      \<and> GetTasks \<notin> set (snd (snd (handleToggleComplete svc d k))))
   \<and> (deleteTask svc k = Resolved () \<longrightarrow>
      d_tasks (fst (snd (handleDeleteTask svc d k)))
        = filter (\<lambda>t. task_id t \<noteq> k) (d_tasks d)
      \<and> GetTasks \<notin> set (snd (snd (handleDeleteTask svc d k))))"
  by (simp add: handleCreateTask_def handleCreateTask_settle_def handleUpdateTask_def
                handleUpdateTask_settle_def handleToggleComplete_def
                handleToggleComplete_settle_def handleDeleteTask_def
                handleDeleteTask_settle_def)

text \<open>
  C6. The claim does not hold of the handlers when two mutations overlap, because each
  writes a list built from the \<open>tasks\<close> of the render it was called in. With the tasks
  1, 2 and 3 on the page, delete is pressed on task 1 and, before that call has settled,
  on task 2; both calls succeed. The first write leaves the tasks 2 and 3; the second
  write filters task 2 out of the list of three it captured and leaves the tasks 1 and 3:
  the deleted task 1 is back and not every other entry was left unchanged. When the first
  call settles before the second press, the tasks left are task 3 alone.
\<close>

theorem overlapping_deletes:
  "deleteTask sample_service 1 = Resolved ()
   \<and> deleteTask sample_service 2 = Resolved ()
   \<and> dr_calls (dash_events sample_service
        \<lparr>dr_page = sample_dashboard [sample_task 1 False, sample_task 2 False,
                                      sample_task 3 False],
          dr_pending = [], dr_calls = []\<rparr>
        [Press (Delete 1), Press (Delete 2), SettleOldest, SettleOldest])
       = [DeleteTask 1, DeleteTask 2]
   \<and> d_tasks (dr_page (dash_events sample_service
        \<lparr>dr_page = sample_dashboard [sample_task 1 False, sample_task 2 False,
                                      sample_task 3 False],
          dr_pending = [], dr_calls = []\<rparr>
        [Press (Delete 1), Press (Delete 2), SettleOldest, SettleOldest]))
       = [sample_task 1 False, sample_task 3 False]
   \<and> d_tasks (dr_page (dash_events sample_service
        \<lparr>dr_page = sample_dashboard [sample_task 1 False, sample_task 2 False,
                                      sample_task 3 False],
          dr_pending = [], dr_calls = []\<rparr>
        [Press (Delete 1), SettleOldest, Press (Delete 2), SettleOldest]))
       = [sample_task 3 False]"
  by (simp add: dash_events_def sample_service_def sample_dashboard_def sample_task_def
                handleDeleteTask_settle_def)

text \<open>
  C7. When the confirmation prompt is declined, pressing delete does nothing: the handler
  returns with the item and whatever state \<open>onDelete\<close> acts on unchanged, so \<open>onDelete\<close>
  has not run. With the dashboard's \<open>handleDeleteTask\<close> as \<open>onDelete\<close>, the service's
  delete is called (once, with the item's task id) exactly when the prompt was accepted,
  and after a declined prompt the page state is the one before.
\<close>

theorem handleDelete_needs_confirmation:
  "(\<not> confirmed \<longrightarrow> handleDelete it confirmed onDelete s = (Resolved (), it, s))
   \<and> snd (snd (snd (handleDelete it confirmed (dashboard_onDelete svc) (d, []))))
       = (if confirmed then [DeleteTask (task_id (ti_task it))] else [])
   \<and> (\<not> confirmed \<longrightarrow>
        fst (snd (snd (handleDelete it confirmed (dashboard_onDelete svc) (d, [])))) = d)"
  by (auto simp: handleDelete_def dashboard_onDelete_def handleDeleteTask_def
                 handleDeleteTask_settle_def
           split: settled.splits thrown.splits)

theorem handleDelete_needs_confirmation_witness:
  "handleDelete \<lparr>ti_task = sample_task 1 False, ti_isDeleting = False, ti_isToggling = False\<rparr>
       False (dashboard_onDelete sample_service)
       (\<lparr>d_tasks = [sample_task 1 False], d_loading = False, d_showForm = False,
          d_editingTask = None, d_error = []\<rparr>, [])
     = (Resolved (),
        \<lparr>ti_task = sample_task 1 False, ti_isDeleting = False, ti_isToggling = False\<rparr>,
        (\<lparr>d_tasks = [sample_task 1 False], d_loading = False, d_showForm = False,
          d_editingTask = None, d_error = []\<rparr>, []))
   \<and> snd (snd (snd (handleDelete
        \<lparr>ti_task = sample_task 1 False, ti_isDeleting = False, ti_isToggling = False\<rparr>
        True (dashboard_onDelete sample_service)
        (\<lparr>d_tasks = [sample_task 1 False], d_loading = False, d_showForm = False,
           d_editingTask = None, d_error = []\<rparr>, []))))
     = [DeleteTask 1]"
proof -
  let ?it = "\<lparr>ti_task = sample_task 1 False, ti_isDeleting = False, ti_isToggling = False\<rparr>"
  let ?d = "\<lparr>d_tasks = [sample_task 1 False], d_loading = False, d_showForm = False,
          d_editingTask = None, d_error = []\<rparr>"
  have tid: "task_id (ti_task ?it) = 1"
    by (simp add: sample_task_def)
  from handleDelete_needs_confirmation
         [of False ?it "dashboard_onDelete sample_service" "(?d, [])" sample_service ?d]
       handleDelete_needs_confirmation
         [of True ?it "dashboard_onDelete sample_service" "(?d, [])" sample_service ?d]
       tid
  show ?thesis
    by simp
qed

section \<open>Properties of the chat page and the chat widget\<close>

lemma trim_idem: "trim (trim s) = trim s"
proof -
  define t where "t = dropWhile is_ws s"
  define u where "u = rev (dropWhile is_ws (rev t))"
  have tu: "t = u @ rev (takeWhile is_ws (rev t))"
    unfolding u_def by (metis rev_append rev_rev_ident takeWhile_dropWhile_id)
  have front: "dropWhile is_ws u = u"
  proof (cases u)
    case Nil
    then show ?thesis by simp
  next
    case (Cons a v)
    from tu Cons have "t = a # (v @ rev (takeWhile is_ws (rev t)))"
      by simp
    then have "t \<noteq> []" and "hd t = a"
      by (metis list.distinct(1), metis list.sel(1))
    then have "\<not> is_ws a"
      unfolding t_def using hd_dropWhile by metis
    with Cons show ?thesis by simp
  qed
  have rear: "rev (dropWhile is_ws (rev u)) = u"
    unfolding u_def by simp
  have "trim s = u"
    by (simp add: trim_def t_def u_def)
  with front rear show ?thesis
    by (simp add: trim_def)
qed

lemma trim_last_not_ws: "trim s \<noteq> [] \<Longrightarrow> \<not> is_ws (last (trim s))"
  unfolding trim_def
  by (metis hd_dropWhile last_rev rev_is_Nil_conv)

lemma trim_sendable: "trim s \<noteq> [] \<Longrightarrow> sendable (trim s)"
  unfolding sendable_def using trim_idem trim_last_not_ws last_in_set by blast

lemma ChatPage_begin_request:
  "ChatPage_begin c = (c', Some req) \<Longrightarrow> sendable (req_message req) \<and> cp_loading c'"
  by (auto simp: ChatPage_begin_def Let_def trim_sendable split: if_splits)

lemma ChatPage_begin_none:
  "ChatPage_begin c = (c', None) \<Longrightarrow> c' = c"
  by (auto simp: ChatPage_begin_def Let_def split: if_splits)

lemma ChatPage_begin_loading:
  "cp_loading c \<Longrightarrow> ChatPage_begin c = (c, None)"
  by (simp add: ChatPage_begin_def)

lemma chat_step_inv: "chat_inv r \<Longrightarrow> chat_inv (chat_step r e)"
proof (cases e)
  case (Type typed)
  assume "chat_inv r"
  with Type show ?thesis by (simp add: chat_inv_def)
next
  case Submit
  assume inv: "chat_inv r"
  show ?thesis
  proof (cases "in_flight r = []")
    case True
    with inv Submit show ?thesis
      by (auto simp: chat_inv_def split: prod.splits option.splits
               dest: ChatPage_begin_request ChatPage_begin_none)
  next
    case False
    with inv have "cp_loading (page r)" by (simp add: chat_inv_def)
    then have "ChatPage_begin (page r) = (page r, None)" by (rule ChatPage_begin_loading)
    with inv Submit show ?thesis by (simp add: chat_inv_def)
  qed
next
  case (Settle outcome)
  assume inv: "chat_inv r"
  show ?thesis
  proof (cases "in_flight r")
    case Nil
    with inv Settle show ?thesis by simp
  next
    case (Cons p rest)
    with inv have "rest = []" by (simp add: chat_inv_def)
    with inv Settle Cons show ?thesis
      by (cases p) (simp add: chat_inv_def)
  qed
qed

lemma chat_events_inv: "chat_inv r \<Longrightarrow> chat_inv (chat_events r es)"
  unfolding chat_events_def
  by (induction es arbitrary: r) (simp_all add: chat_step_inv)

lemma DashboardPage_begin_request:
  "DashboardPage_begin w = (w', Some req) \<Longrightarrow> sendable (req_message req) \<and> cd_chatLoading w'"
  by (auto simp: DashboardPage_begin_def Let_def trim_sendable split: if_splits)

lemma DashboardPage_begin_none:
  "DashboardPage_begin w = (w', None) \<Longrightarrow> w' = w"
  by (auto simp: DashboardPage_begin_def Let_def split: if_splits)

lemma DashboardPage_begin_loading:
  "cd_chatLoading w \<Longrightarrow> DashboardPage_begin w = (w, None)"
  by (simp add: DashboardPage_begin_def)

lemma widget_step_inv: "widget_inv r \<Longrightarrow> widget_inv (widget_step svc r e)"
proof (cases e)
  case (Type typed)
  assume "widget_inv r"
  with Type show ?thesis by (simp add: widget_inv_def)
next
  case Submit
  assume inv: "widget_inv r"
  show ?thesis
  proof (cases "w_in_flight r = []")
    case True
    with inv Submit show ?thesis
      by (auto simp: widget_inv_def split: prod.splits option.splits
               dest: DashboardPage_begin_request DashboardPage_begin_none)
  next
    case False
    with inv have "cd_chatLoading (w_page r)" by (simp add: widget_inv_def)
    then have "DashboardPage_begin (w_page r) = (w_page r, None)"
      by (rule DashboardPage_begin_loading)
    with inv Submit show ?thesis by (simp add: widget_inv_def)
  qed
next
  case (Settle outcome)
  assume inv: "widget_inv r"
  show ?thesis
  proof (cases "w_in_flight r")
    case Nil
    with inv Settle show ?thesis by simp
  next
    case (Cons p rest)
    with inv have "rest = []" by (simp add: widget_inv_def)
    with inv Settle Cons show ?thesis
      by (cases p) (simp add: widget_inv_def)
  qed
qed

lemma widget_events_inv: "widget_inv r \<Longrightarrow> widget_inv (widget_events svc r es)"
  unfolding widget_events_def
  by (induction es arbitrary: r) (simp_all add: widget_step_inv)

text \<open>
  C9. Submitting while the trimmed input is empty or while \<open>loading\<close> is set is a no-op,
  on the chat page and in the dashboard widget: no request is sent and the whole state
  (message list, conversation id, input text, error) is returned as it was. Every request
  either handler sends carries a message that is not empty and not white space only. A
  request that is sent raises the loading flag, so on the chat page and in the widget,
  whatever is typed, submitted or settled from a state with no request waiting, at most
  one request waits at any time and every request ever sent carries such a message.
\<close>

theorem chat_send_guard:
  "(trim (cp_input c) = [] \<or> cp_loading c \<longrightarrow> ChatPage_handleSendMessage c send = (c, []))
   \<and> (trim (cd_chatInput w) = [] \<or> cd_chatLoading w
        \<longrightarrow> DashboardPage_handleSendMessage w send svc = (w, [], []))
   \<and> (\<forall>req\<in>set (snd (ChatPage_handleSendMessage c send)). sendable (req_message req))
   \<and> (\<forall>req\<in>set (fst (snd (DashboardPage_handleSendMessage w send svc))).
         sendable (req_message req))
   \<and> (in_flight r = [] \<and> issued r = [] \<longrightarrow>
         length (in_flight (chat_events r es)) \<le> 1
         \<and> (in_flight (chat_events r es) \<noteq> [] \<longrightarrow> cp_loading (page (chat_events r es)))
         \<and> (\<forall>req\<in>set (issued (chat_events r es)). sendable (req_message req)))
   \<and> (w_in_flight wr = [] \<and> w_issued wr = [] \<longrightarrow>
         length (w_in_flight (widget_events svc wr es)) \<le> 1
         \<and> (w_in_flight (widget_events svc wr es) \<noteq> []
              \<longrightarrow> cd_chatLoading (w_page (widget_events svc wr es)))
         \<and> (\<forall>req\<in>set (w_issued (widget_events svc wr es)). sendable (req_message req)))"
proof (intro conjI impI)
  assume "trim (cp_input c) = [] \<or> cp_loading c"
  then show "ChatPage_handleSendMessage c send = (c, [])"
    by (auto simp: ChatPage_handleSendMessage_def ChatPage_begin_def)
next
  assume "trim (cd_chatInput w) = [] \<or> cd_chatLoading w"
  then show "DashboardPage_handleSendMessage w send svc = (w, [], [])"
    by (auto simp: DashboardPage_handleSendMessage_def DashboardPage_begin_def)
next
  show "\<forall>req\<in>set (snd (ChatPage_handleSendMessage c send)). sendable (req_message req)"
    by (auto simp: ChatPage_handleSendMessage_def ChatPage_begin_def Let_def trim_sendable)
next
  show "\<forall>req\<in>set (fst (snd (DashboardPage_handleSendMessage w send svc))).
         sendable (req_message req)"
    by (auto simp: DashboardPage_handleSendMessage_def DashboardPage_begin_def Let_def
                   trim_sendable split: prod.splits)
next
  assume "in_flight r = [] \<and> issued r = []"
  then have "chat_inv r" by (simp add: chat_inv_def)
  then have inv: "chat_inv (chat_events r es)" by (rule chat_events_inv)
  then show "length (in_flight (chat_events r es)) \<le> 1"
    and "in_flight (chat_events r es) \<noteq> [] \<Longrightarrow> cp_loading (page (chat_events r es))"
    and "\<forall>req\<in>set (issued (chat_events r es)). sendable (req_message req)"
    by (simp_all add: chat_inv_def)
next
  assume "w_in_flight wr = [] \<and> w_issued wr = []"
  then have "widget_inv wr" by (simp add: widget_inv_def)
  then have inv: "widget_inv (widget_events svc wr es)" by (rule widget_events_inv)
  then show "length (w_in_flight (widget_events svc wr es)) \<le> 1"
    and "w_in_flight (widget_events svc wr es) \<noteq> []
           \<Longrightarrow> cd_chatLoading (w_page (widget_events svc wr es))"
    and "\<forall>req\<in>set (w_issued (widget_events svc wr es)). sendable (req_message req)"
    by (simp_all add: widget_inv_def)
qed

theorem chat_send_guard_witness:
  "ChatPage_handleSendMessage (initial_chat_page\<lparr>cp_input := js ''  ''\<rparr>)
       (sendMessage sample_chat_service)
     = (initial_chat_page\<lparr>cp_input := js ''  ''\<rparr>, [])
   \<and> DashboardPage_handleSendMessage ((sample_widget (js ''hi''))\<lparr>cd_chatLoading := True\<rparr>)
       (sendMessage sample_chat_service) sample_service
     = ((sample_widget (js ''hi''))\<lparr>cd_chatLoading := True\<rparr>, [], [])
   \<and> issued (chat_events \<lparr>page = initial_chat_page, in_flight = [], issued = []\<rparr>
        [Type (js '' hi ''), Submit, Type (js ''more''), Submit])
     = [\<lparr>req_conversation_id = None, req_message = js ''hi''\<rparr>]
   \<and> sendable (js ''hi'')
   \<and> length (in_flight (chat_events \<lparr>page = initial_chat_page, in_flight = [], issued = []\<rparr>
        [Type (js '' hi ''), Submit, Type (js ''more''), Submit])) \<le> 1
   \<and> length (w_in_flight (widget_events sample_service
        \<lparr>w_page = sample_widget (js ''hi''), w_in_flight = [], w_issued = []\<rparr>
        [Submit, Type (js ''more''), Submit])) \<le> 1"
proof -
  let ?c = "initial_chat_page\<lparr>cp_input := js ''  ''\<rparr>"
  let ?w = "(sample_widget (js ''hi''))\<lparr>cd_chatLoading := True\<rparr>"
  let ?r = "\<lparr>page = initial_chat_page, in_flight = [], issued = []\<rparr>"
  let ?wr = "\<lparr>w_page = sample_widget (js ''hi''), w_in_flight = [], w_issued = []\<rparr>"
  let ?es = "[Type (js '' hi ''), Submit, Type (js ''more''), Submit]"
  have blank: "trim (cp_input ?c) = [] \<or> cp_loading ?c"
    by (simp add: trim_def is_ws_def js_def)
  have busy: "trim (cd_chatInput ?w) = [] \<or> cd_chatLoading ?w"
    by simp
  have idle: "in_flight ?r = [] \<and> issued ?r = []" "w_in_flight ?wr = [] \<and> w_issued ?wr = []"
    by simp_all
  have sent: "issued (chat_events ?r ?es)
      = [\<lparr>req_conversation_id = None, req_message = js ''hi''\<rparr>]"
    by (simp add: chat_events_def ChatPage_begin_def initial_chat_page_def Let_def trim_def
                  is_ws_def js_def)
  note page_run = chat_send_guard
         [where c = ?c and w = ?w and r = ?r and wr = ?wr
            and send = "sendMessage sample_chat_service" and svc = sample_service and es = ?es]
  note widget_run = chat_send_guard
         [where c = ?c and w = ?w and r = ?r and wr = ?wr
            and send = "sendMessage sample_chat_service" and svc = sample_service
            and es = "[Submit, Type (js ''more''), Submit]"]
  from page_run blank
  have g1: "ChatPage_handleSendMessage ?c (sendMessage sample_chat_service) = (?c, [])"
    by blast
  from page_run busy
  have g2: "DashboardPage_handleSendMessage ?w (sendMessage sample_chat_service) sample_service
      = (?w, [], [])"
    by blast
  from page_run idle
  have g3: "length (in_flight (chat_events ?r ?es)) \<le> 1"
    and all: "\<forall>req\<in>set (issued (chat_events ?r ?es)). sendable (req_message req)"
    by blast+
  from all sent have g4: "sendable (js ''hi'')"
    by simp
  from widget_run idle
  have g5: "length (w_in_flight (widget_events sample_service ?wr
      [Submit, Type (js ''more''), Submit])) \<le> 1"
    by blast
  from g1 g2 sent g4 g3 g5 show ?thesis
    by blast
qed

lemma butlast_empty_iff: "butlast xs = [] \<longleftrightarrow> length xs \<le> Suc 0"
  by (cases xs rule: rev_cases) auto




text \<open>
  C5 (as amended). When a chat request fails, whatever the page state is by then, no
  message is added to the transcript: it shows the messages of that state without the
  last one, and the failure is shown in the error banner below the transcript when its
  message is not empty, and nowhere when it is empty. Provided the transcript was not
  replaced while the request was pending, the optimistic user bubble is thereby rolled
  back and the transcript shows the messages it showed before the send. A reply the call
  resolves with is appended as an assistant message; under the same proviso it comes after
  the user bubble, which then stays.
\<close>

theorem chat_failure_view:
  "ChatPage_begin c = (cb, Some req) \<longrightarrow>
     cp_messages cb = cp_messages c @ [\<lparr>role = User, content = req_message req\<rparr>]
     \<and> error_banner (ChatPage_render cb) = None
     \<and> transcript (ChatPage_render (ChatPage_settle cid cs (Rejected err)))
         = (if butlast (cp_messages cs) = [] then StartConversation
            else Bubbles (butlast (cp_messages cs)) False)
     \<and> error_banner (ChatPage_render (ChatPage_settle cid cs (Rejected err)))
         = (if send_failure_text err = [] then None else Some (send_failure_text err))
     \<and> (cp_messages cs = cp_messages cb \<longrightarrow>
          transcript (ChatPage_render (ChatPage_settle cid cs (Rejected err)))
            = (if cp_messages c = [] then StartConversation else Bubbles (cp_messages c) False))
     \<and> transcript (ChatPage_render (ChatPage_settle cid cs (Resolved response)))
         = Bubbles (cp_messages cs @ [\<lparr>role = Assistant, content = resp_response response\<rparr>])
                   False
     \<and> error_banner (ChatPage_render (ChatPage_settle cid cs (Resolved response)))
         = error_banner (ChatPage_render cs)
     \<and> (cp_messages cs = cp_messages cb \<longrightarrow>
          transcript (ChatPage_render (ChatPage_settle cid cs (Resolved response)))
            = Bubbles (cp_messages c @ [\<lparr>role = User, content = req_message req\<rparr>,
                                       \<lparr>role = Assistant, content = resp_response response\<rparr>])
                      False)"
proof (intro conjI impI)
  assume b: "ChatPage_begin c = (cb, Some req)"
  then show m1: "cp_messages cb = cp_messages c @ [\<lparr>role = User, content = req_message req\<rparr>]"
    and "error_banner (ChatPage_render cb) = None"
    by (auto simp: ChatPage_begin_def ChatPage_render_def Let_def split: if_splits)
  show fail: "transcript (ChatPage_render (ChatPage_settle cid cs (Rejected err)))
         = (if butlast (cp_messages cs) = [] then StartConversation
            else Bubbles (butlast (cp_messages cs)) False)"
    by (simp add: ChatPage_settle_def ChatPage_render_def butlast_empty_iff)
  show "error_banner (ChatPage_render (ChatPage_settle cid cs (Rejected err)))
         = (if send_failure_text err = [] then None else Some (send_failure_text err))"
    by (simp add: ChatPage_settle_def ChatPage_render_def)
  show reply: "transcript (ChatPage_render (ChatPage_settle cid cs (Resolved response)))
         = Bubbles (cp_messages cs @ [\<lparr>role = Assistant, content = resp_response response\<rparr>])
                   False"
    by (simp add: ChatPage_settle_def ChatPage_render_def)
  show "error_banner (ChatPage_render (ChatPage_settle cid cs (Resolved response)))
         = error_banner (ChatPage_render cs)"
    by (simp add: ChatPage_settle_def ChatPage_render_def)
  {
    assume "cp_messages cs = cp_messages cb"
    with m1 fail
    show "transcript (ChatPage_render (ChatPage_settle cid cs (Rejected err)))
            = (if cp_messages c = [] then StartConversation else Bubbles (cp_messages c) False)"
      by simp
  }
  {
    assume "cp_messages cs = cp_messages cb"
    with m1 reply
    show "transcript (ChatPage_render (ChatPage_settle cid cs (Resolved response)))
            = Bubbles (cp_messages c @ [\<lparr>role = User, content = req_message req\<rparr>,
                                       \<lparr>role = Assistant, content = resp_response response\<rparr>])
                      False"
      by simp
  }
qed

theorem chat_failure_view_witness:
  "transcript (ChatPage_render (ChatPage_settle None
       \<lparr>cp_messages = [\<lparr>role = User, content = js ''hi''\<rparr>], cp_input = [],
         cp_conversationId = None, cp_loading = True, cp_error = None\<rparr>
       (Rejected (Error (js ''Failed to fetch''))))) = StartConversation
   \<and> error_banner (ChatPage_render (ChatPage_settle None
       \<lparr>cp_messages = [\<lparr>role = User, content = js ''hi''\<rparr>], cp_input = [],
         cp_conversationId = None, cp_loading = True, cp_error = None\<rparr>
       (Rejected (Error (js ''Failed to fetch''))))) = Some (js ''Failed to fetch'')
   \<and> transcript (ChatPage_render (ChatPage_settle None
       \<lparr>cp_messages = [\<lparr>role = User, content = js ''hi''\<rparr>], cp_input = [],
         cp_conversationId = None, cp_loading = True, cp_error = None\<rparr>
       (Resolved \<lparr>resp_conversation_id = 5, resp_response = js ''Added task 1'',
                  resp_timestamp = js ''2026-02-07T10:00:00''\<rparr>)))
     = Bubbles [\<lparr>role = User, content = js ''hi''\<rparr>,
                \<lparr>role = Assistant, content = js ''Added task 1''\<rparr>] False"
proof -
  let ?c = "initial_chat_page\<lparr>cp_input := js ''hi''\<rparr>"
  let ?c1 = "\<lparr>cp_messages = [\<lparr>role = User, content = js ''hi''\<rparr>], cp_input = [],
              cp_conversationId = None, cp_loading = True, cp_error = None\<rparr>"
  let ?req = "\<lparr>req_conversation_id = None, req_message = js ''hi''\<rparr>"
  let ?err = "Error (js ''Failed to fetch'')"
  let ?resp = "\<lparr>resp_conversation_id = 5, resp_response = js ''Added task 1'',
                resp_timestamp = js ''2026-02-07T10:00:00''\<rparr>"
  have page: "ChatPage_begin ?c = (?c1, Some ?req)"
    by (simp add: ChatPage_begin_def initial_chat_page_def Let_def trim_def is_ws_def js_def)
  have vals: "send_failure_text ?err = js ''Failed to fetch''" "cp_messages ?c = []"
    "js ''Failed to fetch'' \<noteq> []"
    by (simp_all add: send_failure_text_def initial_chat_page_def js_def)
  note inst = chat_failure_view
         [where c = ?c and cb = ?c1 and cs = ?c1 and req = ?req and cid = None and err = ?err
            and response = ?resp]
  from inst page vals
  have a: "transcript (ChatPage_render (ChatPage_settle None ?c1 (Rejected ?err)))
      = StartConversation"
    and b: "error_banner (ChatPage_render (ChatPage_settle None ?c1 (Rejected ?err)))
      = Some (js ''Failed to fetch'')"
    and c: "transcript (ChatPage_render (ChatPage_settle None ?c1 (Resolved ?resp)))
      = Bubbles [\<lparr>role = User, content = js ''hi''\<rparr>,
                 \<lparr>role = Assistant, content = js ''Added task 1''\<rparr>] False"
    by simp_all
  from a b c show ?thesis
    by blast
qed


text \<open>
  The claim as stated fails: after a failed first send the transcript holds no bubble at
  all, neither the user's nor an assistant-style one, and the failure is in the banner.
\<close>

theorem chat_failure_view_counterexample:
  "snd (ChatPage_handleSendMessage (initial_chat_page\<lparr>cp_input := js ''hi''\<rparr>)
          (sendMessage failing_chat_service))
     = [\<lparr>req_conversation_id = None, req_message = js ''hi''\<rparr>]
   \<and> sendMessage failing_chat_service \<lparr>req_conversation_id = None, req_message = js ''hi''\<rparr>
     = Rejected (Error (js ''Failed to fetch''))
   \<and> transcript (ChatPage_render (fst (ChatPage_handleSendMessage
          (initial_chat_page\<lparr>cp_input := js ''hi''\<rparr>) (sendMessage failing_chat_service))))
     = StartConversation
   \<and> error_banner (ChatPage_render (fst (ChatPage_handleSendMessage
          (initial_chat_page\<lparr>cp_input := js ''hi''\<rparr>) (sendMessage failing_chat_service))))
     = Some (js ''Failed to fetch'')"
  by (simp add: ChatPage_handleSendMessage_def ChatPage_begin_def ChatPage_settle_def
                ChatPage_render_def initial_chat_page_def failing_chat_service_def trim_def
                is_ws_def js_def send_failure_text_def Let_def)

text \<open>
  C8 (as amended). The chat page checks that a token is present, not that it is valid: the
  user counts as authenticated exactly when local storage holds a non-empty string under
  \<open>auth_token\<close>. When none is present, the page's authentication effect redirects to
  \<open>/signin\<close>, no conversation history is requested and the state stays the initial one;
  when one is present, there is no redirect and the history is requested.
\<close>

theorem chat_page_auth_check:
  "isAuthenticated (Some localStorage)
     = (\<exists>token. localStorage (js ''auth_token'') = Some token \<and> token \<noteq> [])
   \<and> (\<not> isAuthenticated (Some localStorage) \<longrightarrow>
        pushed (ChatPage_mount localStorage svc) = [js ''/signin'']
        \<and> history_calls (ChatPage_mount localStorage svc) = []
        \<and> after_effects (ChatPage_mount localStorage svc) = initial_chat_page)
   \<and> (isAuthenticated (Some localStorage) \<longrightarrow>
        pushed (ChatPage_mount localStorage svc) = []
        \<and> history_calls (ChatPage_mount localStorage svc) \<noteq> []
        \<and> hd (history_calls (ChatPage_mount localStorage svc)) = GetConversations)"
  by (auto simp: isAuthenticated_def getToken_def tokenStorage_getToken_def ChatPage_mount_def
                 loadConversationHistory_def Let_def
           split: option.splits settled.splits list.splits)

theorem chat_page_auth_check_witness:
  "pushed (ChatPage_mount Map.empty sample_chat_service) = [js ''/signin'']
   \<and> history_calls (ChatPage_mount Map.empty sample_chat_service) = []
   \<and> pushed (ChatPage_mount [js ''auth_token'' \<mapsto> js ''abc''] sample_chat_service) = []"
proof -
  have out: "\<not> isAuthenticated (Some Map.empty)"
    by (simp add: isAuthenticated_def getToken_def tokenStorage_getToken_def)
  have signed: "isAuthenticated (Some [js ''auth_token'' \<mapsto> js ''abc''])"
    by (simp add: isAuthenticated_def getToken_def tokenStorage_getToken_def js_def)
  from chat_page_auth_check [where localStorage = Map.empty and svc = sample_chat_service]
       chat_page_auth_check
         [where localStorage = "[js ''auth_token'' \<mapsto> js ''abc'']"
            and svc = sample_chat_service]
       out signed
  show ?thesis
    by blast
qed

text \<open>
  The claim as stated fails: with no token stored the page's first render is the chat
  screen all the same, and a stored string such as "x" counts as authenticated: there is
  no redirect and the chat screen stays, even when every call of the chat service fails.
\<close>

theorem chat_page_auth_check_counterexample:
  "\<not> isAuthenticated (Some empty_storage)
   \<and> first_render (ChatPage_mount empty_storage sample_chat_service)
       = \<lparr>transcript = StartConversation, error_banner = None, input_value = [],
          input_disabled = False, send_disabled = True\<rparr>
   \<and> isAuthenticated (Some (storage_with_token (js ''x'')))
   \<and> pushed (ChatPage_mount (storage_with_token (js ''x'')) failing_chat_service) = []
   \<and> first_render (ChatPage_mount (storage_with_token (js ''x'')) failing_chat_service)
       = \<lparr>transcript = StartConversation, error_banner = None, input_value = [],
          input_disabled = False, send_disabled = True\<rparr>"
  by (simp add: isAuthenticated_def getToken_def tokenStorage_getToken_def ChatPage_mount_def
                ChatPage_render_def initial_chat_page_def trim_def js_def Let_def
                empty_storage_def storage_with_token_def)

section \<open>Properties of the HTTP client\<close>

lemma request_calls:
  "snd (request baseUrl fetch endpoint options) =
     [\<lparr>fc_url = baseUrl @ endpoint, fc_method = opt_method options,
       fc_body = opt_body options,
       fc_headers =
         (case opt_token options of
            None \<Rightarrow> [js ''Content-Type'' \<mapsto> js ''application/json''] ++ opt_headers options
          | Some token \<Rightarrow>
              if token \<noteq> []
              then ([js ''Content-Type'' \<mapsto> js ''application/json''] ++ opt_headers options)
                     (js ''Authorization'' \<mapsto> js ''Bearer '' @ token)
              else [js ''Content-Type'' \<mapsto> js ''application/json'']
                     ++ opt_headers options)\<rparr>]"
  by (simp add: request_def Let_def)

lemma request_result:
  "fetch (hd (snd (request baseUrl fetch endpoint options))) = Resolved r \<Longrightarrow>
   fst (request baseUrl fetch endpoint options) =
     (if status r = 204 then Resolved (JObj [])
      else if \<not> ok r then
        (if body_data r = JNull then Rejected (Error (null_property_message ''detail''))
         else (case to_string (errorMessage (body_data r) (status r)) of
                 Some m \<Rightarrow> Rejected (Error m)
               | None \<Rightarrow> Rejected (Error no_primitive_message)))
      else (case body r of Parsed data \<Rightarrow> Resolved data | Unparsable m \<Rightarrow> Rejected (Error m)))"
  by (simp add: request_calls) (simp add: request_def Let_def)

lemma errorMessage_detail:
  "get_prop data (js ''detail'') = Some v \<Longrightarrow> truthy v \<Longrightarrow> errorMessage data st = v"
  by (simp add: errorMessage_def)

lemma errorMessage_message:
  "falsy_prop data (js ''detail'') \<Longrightarrow> get_prop data (js ''message'') = Some v \<Longrightarrow> truthy v
     \<Longrightarrow> errorMessage data st = v"
  by (auto simp: errorMessage_def falsy_prop_def split: option.splits)

lemma errorMessage_fallback:
  "falsy_prop data (js ''detail'') \<Longrightarrow> falsy_prop data (js ''message'')
     \<Longrightarrow> errorMessage data st = JStr (js ''HTTP error! status: '' @ show_nat st)"
  by (auto simp: errorMessage_def falsy_prop_def split: option.splits)

text \<open>
  C3 (as amended). Every request makes one call of \<open>fetch\<close>. When a non-empty token is
  supplied, that call carries the header \<open>Authorization\<close> equal to "Bearer " followed by
  the token. A response with status 204 gives the empty object and nothing is thrown. A
  response whose status is not in 200..299 always makes the request throw an \<open>Error\<close>.
  The body that is not JSON counting as the empty object, and for a body other than the
  JSON value \<open>null\<close>: when the body's \<open>detail\<close> field is truthy, the message is the
  string form of that field (the field itself when it is a string), whatever the
  \<open>message\<close> field holds; when \<open>detail\<close> is absent or falsy and the \<open>message\<close> field
  is truthy, it is the string form of \<open>message\<close>; when both are absent or falsy, it is the
  text "HTTP error! status: " followed by the status.
\<close>

theorem request_contract:
  "(opt_token options = Some token \<and> token \<noteq> [] \<longrightarrow>
      length (snd (request baseUrl fetch endpoint options)) = 1
      \<and> (\<forall>call\<in>set (snd (request baseUrl fetch endpoint options)).
            fc_headers call (js ''Authorization'') = Some (js ''Bearer '' @ token)))
   \<and> (fetch (hd (snd (request baseUrl fetch endpoint options))) = Resolved r
        \<and> status r = 204 \<longrightarrow>
      fst (request baseUrl fetch endpoint options) = Resolved (JObj []))
   \<and> (fetch (hd (snd (request baseUrl fetch endpoint options))) = Resolved r
        \<and> \<not> ok r \<longrightarrow>
      (\<exists>m. fst (request baseUrl fetch endpoint options) = Rejected (Error m))
      \<and> (body_data r \<noteq> JNull \<longrightarrow>
           (get_prop (body_data r) (js ''detail'') = Some v \<and> truthy v
              \<and> to_string v = Some s \<longrightarrow>
              fst (request baseUrl fetch endpoint options) = Rejected (Error s))
           \<and> (get_prop (body_data r) (js ''detail'') = Some (JStr s) \<and> s \<noteq> [] \<longrightarrow>
              fst (request baseUrl fetch endpoint options) = Rejected (Error s))
           \<and> (falsy_prop (body_data r) (js ''detail'')
              \<and> get_prop (body_data r) (js ''message'') = Some v \<and> truthy v
              \<and> to_string v = Some s \<longrightarrow>
              fst (request baseUrl fetch endpoint options) = Rejected (Error s))
           \<and> (falsy_prop (body_data r) (js ''detail'')
              \<and> falsy_prop (body_data r) (js ''message'') \<longrightarrow>
              fst (request baseUrl fetch endpoint options)
                = Rejected (Error (js ''HTTP error! status: '' @ show_nat (status r))))))"
proof (intro conjI impI)
  assume "opt_token options = Some token \<and> token \<noteq> []"
  then show "length (snd (request baseUrl fetch endpoint options)) = 1"
    and "\<forall>call\<in>set (snd (request baseUrl fetch endpoint options)).
            fc_headers call (js ''Authorization'') = Some (js ''Bearer '' @ token)"
    by (simp_all add: request_calls)
next
  assume "fetch (hd (snd (request baseUrl fetch endpoint options))) = Resolved r
        \<and> status r = 204"
  then show "fst (request baseUrl fetch endpoint options) = Resolved (JObj [])"
    by (simp add: request_result)
next
  assume bad: "fetch (hd (snd (request baseUrl fetch endpoint options))) = Resolved r
        \<and> \<not> ok r"
  then have st: "status r \<noteq> 204"
    by (auto simp: ok_def)
  from bad st show "\<exists>m. fst (request baseUrl fetch endpoint options) = Rejected (Error m)"
    by (simp add: request_result split: option.splits)
  assume data: "body_data r \<noteq> JNull"
  from bad st data
  have res: "fst (request baseUrl fetch endpoint options)
      = (case to_string (errorMessage (body_data r) (status r)) of
           Some m \<Rightarrow> Rejected (Error m)
         | None \<Rightarrow> Rejected (Error no_primitive_message))"
    by (simp add: request_result)
  {
    assume "get_prop (body_data r) (js ''detail'') = Some v \<and> truthy v \<and> to_string v = Some s"
    then show "fst (request baseUrl fetch endpoint options) = Rejected (Error s)"
      by (simp add: res errorMessage_detail)
  }
  {
    assume "get_prop (body_data r) (js ''detail'') = Some (JStr s) \<and> s \<noteq> []"
    then show "fst (request baseUrl fetch endpoint options) = Rejected (Error s)"
      by (simp add: res errorMessage_detail)
  }
  {
    assume "falsy_prop (body_data r) (js ''detail'')
              \<and> get_prop (body_data r) (js ''message'') = Some v \<and> truthy v
              \<and> to_string v = Some s"
    then show "fst (request baseUrl fetch endpoint options) = Rejected (Error s)"
      by (simp add: res errorMessage_message)
  }
  {
    assume "falsy_prop (body_data r) (js ''detail'')
              \<and> falsy_prop (body_data r) (js ''message'')"
    then show "fst (request baseUrl fetch endpoint options)
                = Rejected (Error (js ''HTTP error! status: '' @ show_nat (status r)))"
      by (simp add: res errorMessage_fallback)
  }
qed

theorem request_contract_witness:
  "fc_headers (hd (snd (request (js ''http://localhost:8002'')
          (responding \<lparr>status = 401,
                        body = Parsed (JObj [(js ''message'', JStr (js ''Unauthorized'')),
                                             (js ''detail'', JStr (js ''Invalid token''))])\<rparr>)
          (js ''/api/tasks'') (sample_options (Some (js ''abc''))))))
        (js ''Authorization'') = Some (js ''Bearer abc'')
   \<and> fst (request (js ''http://localhost:8002'')
          (responding \<lparr>status = 401,
                        body = Parsed (JObj [(js ''message'', JStr (js ''Unauthorized'')),
                                             (js ''detail'', JStr (js ''Invalid token''))])\<rparr>)
          (js ''/api/tasks'') (sample_options (Some (js ''abc''))))
     = Rejected (Error (js ''Invalid token''))
   \<and> fst (request (js ''http://localhost:8002'')
          (responding \<lparr>status = 400,
                        body = Parsed (JObj [(js ''detail'', JStr []),
                                             (js ''message'', JStr (js ''Title is required''))])\<rparr>)
          (js ''/api/tasks'') (sample_options (Some (js ''abc''))))
     = Rejected (Error (js ''Title is required''))
   \<and> fst (request (js ''http://localhost:8002'')
          (responding \<lparr>status = 502, body = Unparsable (js ''Unexpected token <'')\<rparr>)
          (js ''/api/tasks'') (sample_options (Some (js ''abc''))))
     = Rejected (Error (js ''HTTP error! status: 502''))
   \<and> fst (request (js ''http://localhost:8002'')
          (responding \<lparr>status = 204, body = Unparsable (js ''Unexpected end of JSON input'')\<rparr>)
          (js ''/api/tasks/9'') (sample_options (Some (js ''abc''))))
     = Resolved (JObj [])"
proof -
  let ?r401 = "\<lparr>status = 401,
                body = Parsed (JObj [(js ''message'', JStr (js ''Unauthorized'')),
                                     (js ''detail'', JStr (js ''Invalid token''))])\<rparr>"
  let ?r400 = "\<lparr>status = 400,
                body = Parsed (JObj [(js ''detail'', JStr []),
                                     (js ''message'', JStr (js ''Title is required''))])\<rparr>"
  let ?r502 = "\<lparr>status = 502, body = Unparsable (js ''Unexpected token <'')\<rparr>"
  let ?r204 = "\<lparr>status = 204, body = Unparsable (js ''Unexpected end of JSON input'')\<rparr>"
  let ?opts = "sample_options (Some (js ''abc''))"
  let ?base = "js ''http://localhost:8002''"
  have tok: "opt_token ?opts = Some (js ''abc'') \<and> js ''abc'' \<noteq> []"
    by (simp add: sample_options_def js_def)
  have bearer: "js ''Bearer '' @ js ''abc'' = js ''Bearer abc''"
    by (simp add: js_def)
  have f401: "responding ?r401 (hd (snd (request ?base (responding ?r401)
                (js ''/api/tasks'') ?opts))) = Resolved ?r401 \<and> \<not> ok ?r401"
    and f400: "responding ?r400 (hd (snd (request ?base (responding ?r400)
                (js ''/api/tasks'') ?opts))) = Resolved ?r400 \<and> \<not> ok ?r400"
    and f502: "responding ?r502 (hd (snd (request ?base (responding ?r502)
                (js ''/api/tasks'') ?opts))) = Resolved ?r502 \<and> \<not> ok ?r502"
    and f204: "responding ?r204 (hd (snd (request ?base (responding ?r204)
                (js ''/api/tasks/9'') ?opts))) = Resolved ?r204 \<and> status ?r204 = 204"
    by (simp_all add: responding_def ok_def)
  have d401: "body_data ?r401 \<noteq> JNull"
    "get_prop (body_data ?r401) (js ''detail'') = Some (JStr (js ''Invalid token''))
       \<and> js ''Invalid token'' \<noteq> []"
    by (simp_all add: body_data_def get_prop_def js_def)
  have d400: "body_data ?r400 \<noteq> JNull"
    "falsy_prop (body_data ?r400) (js ''detail'')
       \<and> get_prop (body_data ?r400) (js ''message'') = Some (JStr (js ''Title is required''))
       \<and> truthy (JStr (js ''Title is required''))
       \<and> to_string (JStr (js ''Title is required'')) = Some (js ''Title is required'')"
    by (simp_all add: body_data_def get_prop_def falsy_prop_def js_def)
  have d502: "body_data ?r502 \<noteq> JNull"
    "falsy_prop (body_data ?r502) (js ''detail'')
       \<and> falsy_prop (body_data ?r502) (js ''message'')"
    "js ''HTTP error! status: '' @ show_nat (status ?r502) = js ''HTTP error! status: 502''"
    by (simp_all add: body_data_def get_prop_def falsy_prop_def js_def show_nat.simps)
  note i401 = request_contract
         [where options = ?opts and token = "js ''abc''" and baseUrl = ?base
            and fetch = "responding ?r401" and endpoint = "js ''/api/tasks''" and r = ?r401
            and s = "js ''Invalid token''"]
  note i400 = request_contract
         [where options = ?opts and token = "js ''abc''" and baseUrl = ?base
            and fetch = "responding ?r400" and endpoint = "js ''/api/tasks''" and r = ?r400
            and v = "JStr (js ''Title is required'')" and s = "js ''Title is required''"]
  note i502 = request_contract
         [where options = ?opts and token = "js ''abc''" and baseUrl = ?base
            and fetch = "responding ?r502" and endpoint = "js ''/api/tasks''" and r = ?r502]
  note i204 = request_contract
         [where options = ?opts and token = "js ''abc''" and baseUrl = ?base
            and fetch = "responding ?r204" and endpoint = "js ''/api/tasks/9''" and r = ?r204]
  from i401 tok bearer
  have a: "fc_headers (hd (snd (request ?base (responding ?r401) (js ''/api/tasks'') ?opts)))
      (js ''Authorization'') = Some (js ''Bearer abc'')"
    by (simp add: request_calls)
  from i401 f401 d401
  have b: "fst (request ?base (responding ?r401) (js ''/api/tasks'') ?opts)
      = Rejected (Error (js ''Invalid token''))"
    by blast
  from i400 f400 d400
  have c: "fst (request ?base (responding ?r400) (js ''/api/tasks'') ?opts)
      = Rejected (Error (js ''Title is required''))"
    by blast
  from i502 f502 d502
  have d: "fst (request ?base (responding ?r502) (js ''/api/tasks'') ?opts)
      = Rejected (Error (js ''HTTP error! status: 502''))"
    by metis
  from i204 f204
  have e: "fst (request ?base (responding ?r204) (js ''/api/tasks/9'') ?opts)
      = Resolved (JObj [])"
    by blast
  from a b c d e show ?thesis
    by blast
qed

text \<open>
  The claim as stated fails: a 404 whose body is \<open>{"error": "Task not found"}\<close> throws an
  error that says "HTTP error! status: 404", not the server's message; and a token that is
  the empty string adds no \<open>Authorization\<close> header.
\<close>

theorem request_contract_counterexample:
  "fst (request (js ''http://localhost:8002'')
          (responding \<lparr>status = 404,
                        body = Parsed (JObj [(js ''error'', JStr (js ''Task not found''))])\<rparr>)
          (js ''/api/tasks/9'') (sample_options (Some (js ''abc''))))
     = Rejected (Error (js ''HTTP error! status: 404''))
   \<and> fc_headers (hd (snd (request (js ''http://localhost:8002'')
          (responding \<lparr>status = 200, body = Parsed (JArr [])\<rparr>)
          (js ''/api/tasks'') (sample_options (Some [])))))
        (js ''Authorization'') = None"
  by (simp add: request_def Let_def sample_options_def ok_def errorMessage_def get_prop_def
                show_nat.simps js_def responding_def body_data_def)

end
